theory Spec2Isabelle
  imports Main
begin

section \<open>Effects: success, typed failure, defect\<close>

text \<open>
  The extension is written with the Effect library. An effect, when run, ends in one of
  three ways: it succeeds with a value, it fails with a typed error (the error channel,
  which \<open>Effect.catchAll\<close> and \<open>Effect.mapError\<close> see), or it dies with a defect (an
  exception thrown inside \<open>Effect.gen\<close>, or a rejected promise wrapped by
  \<open>Effect.promise\<close>; \<open>catchAll\<close> does not see defects).
\<close>

datatype error =
    InvokeCommandError string "string option"
  | ExtensionStorageError string
  | RecorderError string
  | NoSuchElementException

datatype ('e, 'a) Exit = Success 'a | Failure 'e | Die string

fun isFailure :: "('e, 'a) Exit \<Rightarrow> bool" where
  "isFailure (Failure e) = True"
| "isFailure _ = False"

definition Effect_succeed :: "'a \<Rightarrow> 'w \<Rightarrow> ('e, 'a) Exit \<times> 'w" where
  "Effect_succeed a w = (Success a, w)"

definition Effect_fail :: "'e \<Rightarrow> 'w \<Rightarrow> ('e, 'a) Exit \<times> 'w" where
  "Effect_fail e w = (Failure e, w)"

definition Effect_die :: "string \<Rightarrow> 'w \<Rightarrow> ('e, 'a) Exit \<times> 'w" where
  "Effect_die d w = (Die d, w)"

text \<open>\<open>yield*\<close> inside \<open>Effect.gen\<close>, and \<open>Effect.flatMap\<close>: run the first effect and
  continue with its value; a failure or a defect ends the whole computation.\<close>

definition Effect_flatMap ::
  "('w \<Rightarrow> ('e, 'a) Exit \<times> 'w) \<Rightarrow> ('a \<Rightarrow> 'w \<Rightarrow> ('e, 'b) Exit \<times> 'w) \<Rightarrow> 'w \<Rightarrow> ('e, 'b) Exit \<times> 'w" where
  "Effect_flatMap m f w =
     (case m w of
        (Success a, w') \<Rightarrow> f a w'
      | (Failure e, w') \<Rightarrow> (Failure e, w')
      | (Die d, w') \<Rightarrow> (Die d, w'))"

definition Effect_catchAll ::
  "('w \<Rightarrow> ('e, 'a) Exit \<times> 'w) \<Rightarrow> ('e \<Rightarrow> 'w \<Rightarrow> ('f, 'a) Exit \<times> 'w) \<Rightarrow> 'w \<Rightarrow> ('f, 'a) Exit \<times> 'w" where
  "Effect_catchAll m h w =
     (case m w of
        (Success a, w') \<Rightarrow> (Success a, w')
      | (Failure e, w') \<Rightarrow> h e w'
      | (Die d, w') \<Rightarrow> (Die d, w'))"

definition Effect_mapError ::
  "('w \<Rightarrow> ('e, 'a) Exit \<times> 'w) \<Rightarrow> ('e \<Rightarrow> 'f) \<Rightarrow> 'w \<Rightarrow> ('f, 'a) Exit \<times> 'w" where
  "Effect_mapError m f w =
     (case m w of
        (Success a, w') \<Rightarrow> (Success a, w')
      | (Failure e, w') \<Rightarrow> (Failure (f e), w')
      | (Die d, w') \<Rightarrow> (Die d, w'))"

text \<open>A platform call either returns a value or throws (rejects) with a reason:
  \<open>Inl reason\<close> or \<open>Inr value\<close>. \<open>Effect.promise\<close> turns a rejection into a defect;
  \<open>Effect.tryPromise\<close> and \<open>Effect.try\<close> turn it into a typed failure through \<open>catch\<close>.\<close>

definition Effect_promise :: "('w \<Rightarrow> (string + 'a) \<times> 'w) \<Rightarrow> 'w \<Rightarrow> ('e, 'a) Exit \<times> 'w" where
  "Effect_promise p w =
     (case p w of (Inl reason, w') \<Rightarrow> (Die reason, w') | (Inr a, w') \<Rightarrow> (Success a, w'))"

definition Effect_tryPromise ::
  "('w \<Rightarrow> (string + 'a) \<times> 'w) \<Rightarrow> (string \<Rightarrow> 'e) \<Rightarrow> 'w \<Rightarrow> ('e, 'a) Exit \<times> 'w" where
  "Effect_tryPromise p catch w =
     (case p w of (Inl reason, w') \<Rightarrow> (Failure (catch reason), w') | (Inr a, w') \<Rightarrow> (Success a, w'))"

definition Effect_try ::
  "('w \<Rightarrow> (string + 'a) \<times> 'w) \<Rightarrow> (string \<Rightarrow> 'e) \<Rightarrow> 'w \<Rightarrow> ('e, 'a) Exit \<times> 'w" where
  "Effect_try t catch w =
     (case t w of (Inl thrown, w') \<Rightarrow> (Failure (catch thrown), w') | (Inr a, w') \<Rightarrow> (Success a, w'))"

text \<open>\<open>Option.fromNullable\<close> used as an effect: \<open>undefined\<close> fails with
  \<open>NoSuchElementException\<close>.\<close>

definition Option_fromNullable :: "'a option \<Rightarrow> 'w \<Rightarrow> (error, 'a) Exit \<times> 'w" where
  "Option_fromNullable v w =
     (case v of None \<Rightarrow> (Failure NoSuchElementException, w) | Some a \<Rightarrow> (Success a, w))"

section \<open>Data model\<close>

datatype ExecutionContext =
    Popup
  | BackgroundServiceWorker
  | GlobalContentScript
  | WhisperingContentScript

text \<open>The three fields that \<open>toggleRecording\<close> reads form the base record; the settings
  document extends it with the other five fields of \<open>settingsSchema\<close>.\<close>

record ToggleSettings =
  apiKey :: string
  selectedAudioInputDeviceId :: string
  isPlaySoundEnabled :: bool

record Settings = ToggleSettings +
  isCopyToClipboardEnabled :: bool
  isPasteContentsOnSuccessEnabled :: bool
  currentLocalShortcut :: string
  currentGlobalShortcut :: string
  outputLanguage :: string

text \<open>JavaScript values, as far as JSON and the schema need them.\<close>

datatype jsval =
    JNull
  | JBool bool
  | JNum int
  | JStr string
  | JArr "jsval list"
  | JObj "(string \<times> jsval) list"

text \<open>The object that \<open>JSON.stringify(settings)\<close> walks: the eight own properties of a
  settings document, in the order of \<open>settingsSchema\<close>.\<close>

definition jsval_of_Settings :: "Settings \<Rightarrow> jsval" where
  "jsval_of_Settings s = JObj
     [(''isPlaySoundEnabled'', JBool (isPlaySoundEnabled s)),
      (''isCopyToClipboardEnabled'', JBool (isCopyToClipboardEnabled s)),
      (''isPasteContentsOnSuccessEnabled'', JBool (isPasteContentsOnSuccessEnabled s)),
      (''selectedAudioInputDeviceId'', JStr (selectedAudioInputDeviceId s)),
      (''currentLocalShortcut'', JStr (currentLocalShortcut s)),
      (''currentGlobalShortcut'', JStr (currentGlobalShortcut s)),
      (''apiKey'', JStr (apiKey s)),
      (''outputLanguage'', JStr (outputLanguage s))]"

record Tab =
  tab_id :: "nat option"
  tab_url :: string
  tab_pinned :: bool
  tab_active :: bool
  tab_currentWindow :: bool

record MediaDeviceInfo =
  deviceId :: string
  label :: string

datatype sound = startSound | stopSound | cancelSound

datatype log_level = LogInfo | LogError

datatype recorder_call = StartRecording string | StopRecording | CancelRecording

record Toast =
  toast_title :: string
  toast_description :: "string option"

text \<open>A message is a command name together with the arguments of that command
  (\<open>MessageToContext\<close>).\<close>

datatype Message =
    Msg_openOptionsPage
  | Msg_getCurrentTabId
  | Msg_getSettings
  | Msg_setSettings Settings
  | Msg_toggleRecording
  | Msg_cancelRecording
  | Msg_sendErrorToast Toast

text \<open>What a command hands back over a message channel.\<close>

datatype response =
    R_undefined
  | R_settings Settings
  | R_tabId nat

subsection \<open>The host platform and the injected services\<close>

text \<open>
  \<open>Env\<close> is what the code cannot influence: the JSON codec of the JavaScript engine,
  which platform calls throw or reject, which calls of the injected services fail, and
  the audio input devices present. A field of type \<open>string option\<close> or \<open>error option\<close>
  is \<open>None\<close> when the call goes through and \<open>Some reason\<close> when it throws, rejects or fails.
\<close>

record Env =
  JSON_parse :: "string \<Rightarrow> string + jsval"
  JSON_stringify :: "jsval \<Rightarrow> string"
  localStorage_denied :: "string option"
  localStorage_quotaExceeded :: "string option"
  tabs_query_rejects :: "string option"
  tabs_create_rejects :: "string option"
  tabs_sendMessage_rejects :: "string option"
  runtime_sendMessage_rejects :: "string option"
  runtime_openOptionsPage_rejects :: "string option"
  recordingDevices :: "MediaDeviceInfo list"
  enumerateRecordingDevices_fails :: "error option"
  startRecording_fails :: "error option"
  stopRecording_fails :: "error option"
  cancelRecording_fails :: "error option"
  recorderState_get_fails :: "error option"
  recorderState_set_fails :: "error option"
  extensionStorage_set_fails :: "error option"

text \<open>
  \<open>World\<close> is everything the commands read and write: the browser's tabs, the
  application page's \<open>localStorage\<close>, the stored recorder state, the extension storage
  slot of the toast, and a trace of every observable side effect.
\<close>

record World =
  tabs :: "Tab list"
  nextTabId :: nat
  localStorage :: "string \<Rightarrow> string option"
  recorderState :: string
  toastSlot :: "Toast option"
  recorderCalls :: "recorder_call list"
  played :: "sound list"
  alerts :: "string list"
  logs :: "(log_level \<times> string) list"
  sentMessages :: "(ExecutionContext \<times> Message) list"
  optionsPagesOpened :: nat

type_synonym 'a Effect = "World \<Rightarrow> (error, 'a) Exit \<times> World"

subsection \<open>Browser storage\<close>

text \<open>\<open>localStorage.getItem\<close> throws when access to storage is denied, and returns
  \<open>null\<close> for a key that is not there.\<close>

definition localStorage_getItem :: "Env \<Rightarrow> string \<Rightarrow> World \<Rightarrow> string + string option" where
  "localStorage_getItem env key w =
     (case localStorage_denied env of
        Some reason \<Rightarrow> Inl reason
      | None \<Rightarrow> Inr (localStorage w key))"

text \<open>\<open>localStorage.setItem\<close> throws when access is denied or the quota is used up.\<close>

definition localStorage_setItem :: "Env \<Rightarrow> string \<Rightarrow> string \<Rightarrow> World \<Rightarrow> (string + unit) \<times> World" where
  "localStorage_setItem env key v w =
     (case localStorage_denied env of
        Some reason \<Rightarrow> (Inl reason, w)
      | None \<Rightarrow>
          (case localStorage_quotaExceeded env of
             Some reason \<Rightarrow> (Inl reason, w)
           | None \<Rightarrow> (Inr (), w\<lparr>localStorage := (localStorage w)(key \<mapsto> v)\<rparr>)))"

section \<open>The settings schema\<close>

text \<open>\<open>z.boolean()\<close>, \<open>z.string()\<close> and \<open>z.object({...})\<close>: \<open>parse\<close> throws on a value of the
  wrong type and on a missing key, and \<open>z.object\<close> drops keys it does not know.\<close>

definition z_boolean :: "jsval option \<Rightarrow> string + bool" where
  "z_boolean v = (case v of Some (JBool b) \<Rightarrow> Inr b | _ \<Rightarrow> Inl ''ZodError'')"

definition z_string :: "jsval option \<Rightarrow> string + string" where
  "z_string v = (case v of Some (JStr s) \<Rightarrow> Inr s | _ \<Rightarrow> Inl ''ZodError'')"

definition and_then :: "string + 'a \<Rightarrow> ('a \<Rightarrow> string + 'b) \<Rightarrow> string + 'b" where
  "and_then r f = (case r of Inl thrown \<Rightarrow> Inl thrown | Inr a \<Rightarrow> f a)"

definition settingsSchema :: "jsval \<Rightarrow> string + Settings" where
  "settingsSchema v =
     (case v of
        JObj props \<Rightarrow>
          and_then (z_boolean (map_of props ''isPlaySoundEnabled'')) (\<lambda>play.
          and_then (z_boolean (map_of props ''isCopyToClipboardEnabled'')) (\<lambda>copy.
          and_then (z_boolean (map_of props ''isPasteContentsOnSuccessEnabled'')) (\<lambda>paste.
          and_then (z_string (map_of props ''selectedAudioInputDeviceId'')) (\<lambda>device.
          and_then (z_string (map_of props ''currentLocalShortcut'')) (\<lambda>localShortcut.
          and_then (z_string (map_of props ''currentGlobalShortcut'')) (\<lambda>globalShortcut.
          and_then (z_string (map_of props ''apiKey'')) (\<lambda>key.
          and_then (z_string (map_of props ''outputLanguage'')) (\<lambda>language.
            Inr \<lparr>apiKey = key, selectedAudioInputDeviceId = device,
                 isPlaySoundEnabled = play, isCopyToClipboardEnabled = copy,
                 isPasteContentsOnSuccessEnabled = paste,
                 currentLocalShortcut = localShortcut,
                 currentGlobalShortcut = globalShortcut,
                 outputLanguage = language\<rparr>))))))))
      | _ \<Rightarrow> Inl ''ZodError'')"

section \<open>Local storage helpers\<close>

definition getLocalStorage :: "Env \<Rightarrow> string \<Rightarrow> (jsval \<Rightarrow> string + 'a) \<Rightarrow> 'a \<Rightarrow> 'a Effect" where
  "getLocalStorage env key schema defaultValue =
     Effect_catchAll
       (Effect_try
          (\<lambda>w. (and_then (localStorage_getItem env key w) (\<lambda>valueFromStorage.
                   case valueFromStorage of
                     None \<Rightarrow> Inr defaultValue
                   | Some text \<Rightarrow> and_then (JSON_parse env text) schema), w))
          (\<lambda>thrown. InvokeCommandError (''Error getting from local storage for key: '' @ key)
                      (Some thrown)))
       (\<lambda>_. Effect_succeed defaultValue)"

definition setLocalStorage :: "Env \<Rightarrow> string \<Rightarrow> string \<Rightarrow> unit Effect" where
  "setLocalStorage env key v =
     Effect_try (localStorage_setItem env key v)
       (\<lambda>thrown. InvokeCommandError (''Error setting in local storage for key: '' @ key)
                   (Some thrown))"

section \<open>Commands that run in the application page\<close>

definition defaultSettings :: Settings where
  "defaultSettings =
     \<lparr>apiKey = '''', selectedAudioInputDeviceId = '''', isPlaySoundEnabled = True,
      isCopyToClipboardEnabled = True, isPasteContentsOnSuccessEnabled = True,
      currentLocalShortcut = ''space'', currentGlobalShortcut = '''',
      outputLanguage = ''en''\<rparr>"

definition getSettings_runInWhisperingContentScript :: "Env \<Rightarrow> Settings Effect" where
  "getSettings_runInWhisperingContentScript env =
     getLocalStorage env ''whispering-settings'' settingsSchema defaultSettings"

definition setSettings_runInWhisperingContentScript :: "Env \<Rightarrow> Settings \<Rightarrow> unit Effect" where
  "setSettings_runInWhisperingContentScript env settings =
     setLocalStorage env ''whispering-settings'' (JSON_stringify env (jsval_of_Settings settings))"

section \<open>Browser tabs and message passing\<close>

record QueryInfo =
  q_url :: "string option"
  q_active :: "bool option"
  q_currentWindow :: "bool option"

record CreateProperties =
  c_url :: string
  c_active :: bool
  c_pinned :: bool

text \<open>A URL pattern that ends in \<open>*\<close> matches every URL that starts with the rest of it;
  a tab opened on an address without a path shows that address with the path \<open>/\<close>.\<close>

definition matches_url_pattern :: "string \<Rightarrow> string \<Rightarrow> bool" where
  "matches_url_pattern pattern url =
     (case rev pattern of
        c # rest \<Rightarrow> if c = CHR ''*'' then take (length rest) url = rev rest else url = pattern
      | [] \<Rightarrow> url = pattern)"

definition normalize_url :: "string \<Rightarrow> string" where
  "normalize_url url =
     (if length (filter (\<lambda>c. c = CHR ''/'') url) < 3 then url @ ''/'' else url)"

definition tab_matches :: "QueryInfo \<Rightarrow> Tab \<Rightarrow> bool" where
  "tab_matches q tab =
     ((case q_url q of None \<Rightarrow> True | Some pattern \<Rightarrow> matches_url_pattern pattern (tab_url tab)) \<and>
      (case q_active q of None \<Rightarrow> True | Some a \<Rightarrow> tab_active tab = a) \<and>
      (case q_currentWindow q of None \<Rightarrow> True | Some c \<Rightarrow> tab_currentWindow tab = c))"

definition chrome_tabs_query :: "Env \<Rightarrow> QueryInfo \<Rightarrow> World \<Rightarrow> (string + Tab list) \<times> World" where
  "chrome_tabs_query env q w =
     (case tabs_query_rejects env of
        Some reason \<Rightarrow> (Inl reason, w)
      | None \<Rightarrow> (Inr (filter (tab_matches q) (tabs w)), w))"

text \<open>\<open>chrome.tabs.create\<close> opens a tab with a fresh identifier in the current window.\<close>

definition chrome_tabs_create :: "Env \<Rightarrow> CreateProperties \<Rightarrow> World \<Rightarrow> (string + Tab) \<times> World" where
  "chrome_tabs_create env props w =
     (case tabs_create_rejects env of
        Some reason \<Rightarrow> (Inl reason, w)
      | None \<Rightarrow>
          (let newTab = \<lparr>tab_id = Some (nextTabId w), tab_url = normalize_url (c_url props),
                         tab_pinned = c_pinned props, tab_active = c_active props,
                         tab_currentWindow = True\<rparr>
           in (Inr newTab, w\<lparr>tabs := tabs w @ [newTab], nextTabId := Suc (nextTabId w)\<rparr>)))"

text \<open>\<open>chrome.tabs.sendMessage\<close> and \<open>chrome.runtime.sendMessage\<close> hand the message to the
  listener of the receiving context. The promise rejects when the platform says so, when
  no tab has the identifier, and when the receiving end gives no answer (its handler
  failed or died); otherwise it resolves with the listener's answer. Every send is
  recorded, delivered or not.\<close>

definition chrome_tabs_sendMessage ::
  "Env \<Rightarrow> (Message \<Rightarrow> response Effect) \<Rightarrow> ExecutionContext \<Rightarrow> nat \<Rightarrow> Message
     \<Rightarrow> World \<Rightarrow> (string + response) \<times> World" where
  "chrome_tabs_sendMessage env listener target tabId message w =
     (let w1 = w\<lparr>sentMessages := sentMessages w @ [(target, message)]\<rparr> in
      case tabs_sendMessage_rejects env of
        Some reason \<Rightarrow> (Inl reason, w1)
      | None \<Rightarrow>
          if \<not> list_ex (\<lambda>tab. tab_id tab = Some tabId) (tabs w1) then (Inl ''No tab with id'', w1)
          else
            (case listener message w1 of
               (Success r, w2) \<Rightarrow> (Inr r, w2)
             | (Failure e, w2) \<Rightarrow> (Inl ''The message port closed before a response was received'', w2)
             | (Die d, w2) \<Rightarrow> (Inl d, w2)))"

definition chrome_runtime_sendMessage ::
  "Env \<Rightarrow> (Message \<Rightarrow> response Effect) \<Rightarrow> Message \<Rightarrow> World \<Rightarrow> (string + response) \<times> World" where
  "chrome_runtime_sendMessage env listener message w =
     (let w1 = w\<lparr>sentMessages := sentMessages w @ [(BackgroundServiceWorker, message)]\<rparr> in
      case runtime_sendMessage_rejects env of
        Some reason \<Rightarrow> (Inl reason, w1)
      | None \<Rightarrow>
          (case listener message w1 of
             (Success r, w2) \<Rightarrow> (Inr r, w2)
           | (Failure e, w2) \<Rightarrow> (Inl ''The message port closed before a response was received'', w2)
           | (Die d, w2) \<Rightarrow> (Inl d, w2)))"

definition chrome_runtime_openOptionsPage :: "Env \<Rightarrow> World \<Rightarrow> (string + unit) \<times> World" where
  "chrome_runtime_openOptionsPage env w =
     (case runtime_openOptionsPage_rejects env of
        Some reason \<Rightarrow> (Inl reason, w)
      | None \<Rightarrow> (Inr (), w\<lparr>optionsPagesOpened := Suc (optionsPagesOpened w)\<rparr>))"

subsection \<open>Synchronous side effects\<close>

definition Effect_sync :: "(World \<Rightarrow> World) \<Rightarrow> unit Effect" where
  "Effect_sync f w = (Success (), f w)"

definition Audio_play :: "sound \<Rightarrow> World \<Rightarrow> World" where
  "Audio_play s w = w\<lparr>played := played w @ [s]\<rparr>"

definition alert :: "string \<Rightarrow> World \<Rightarrow> World" where
  "alert text w = w\<lparr>alerts := alerts w @ [text]\<rparr>"

definition Effect_logInfo :: "string \<Rightarrow> unit Effect" where
  "Effect_logInfo text w = (Success (), w\<lparr>logs := logs w @ [(LogInfo, text)]\<rparr>)"

definition Effect_logError :: "string \<Rightarrow> unit Effect" where
  "Effect_logError text w = (Success (), w\<lparr>logs := logs w @ [(LogError, text)]\<rparr>)"

section \<open>Injected services\<close>

text \<open>The commands of the global content script obtain their services from layers
  (\<open>Effect.provide\<close>); building a layer is taken to succeed, so that a service behaves
  as its calls below do.\<close>

text \<open>Modelled from the spec: \<open>RecorderService\<close> and its live layer (\<open>RecorderServiceLive\<close>)
  are imported by \<open>commands.ts\<close> and are not among the source files. The recorder
  enumerates the available input devices and starts, stops or cancels a capture; each
  call may fail with a typed error. Every call to start, stop or cancel is recorded,
  whether it fails or not.\<close>

definition recorderService_enumerateRecordingDevices :: "Env \<Rightarrow> MediaDeviceInfo list Effect" where
  "recorderService_enumerateRecordingDevices env w =
     (case enumerateRecordingDevices_fails env of
        Some e \<Rightarrow> (Failure e, w)
      | None \<Rightarrow> (Success (recordingDevices env), w))"

text \<open>Modelled from the spec: \<open>RecorderService.startRecording\<close>, "start capture on the
  currently configured input device".\<close>

definition recorderService_startRecording :: "Env \<Rightarrow> string \<Rightarrow> unit Effect" where
  "recorderService_startRecording env device w =
     (let w1 = w\<lparr>recorderCalls := recorderCalls w @ [StartRecording device]\<rparr> in
      case startRecording_fails env of
        Some e \<Rightarrow> (Failure e, w1)
      | None \<Rightarrow> (Success (), w1))"

text \<open>Modelled from the spec: \<open>RecorderService.stopRecording\<close>, "stop capture".\<close>

definition recorderService_stopRecording :: "Env \<Rightarrow> unit Effect" where
  "recorderService_stopRecording env w =
     (let w1 = w\<lparr>recorderCalls := recorderCalls w @ [StopRecording]\<rparr> in
      case stopRecording_fails env of
        Some e \<Rightarrow> (Failure e, w1)
      | None \<Rightarrow> (Success (), w1))"

text \<open>Modelled from the spec: \<open>RecorderService.cancelRecording\<close>, "request cancellation of
  any in-flight capture".\<close>

definition recorderService_cancelRecording :: "Env \<Rightarrow> unit Effect" where
  "recorderService_cancelRecording env w =
     (let w1 = w\<lparr>recorderCalls := recorderCalls w @ [CancelRecording]\<rparr> in
      case cancelRecording_fails env of
        Some e \<Rightarrow> (Failure e, w1)
      | None \<Rightarrow> (Success (), w1))"

text \<open>Modelled from the spec: \<open>RecorderStateService\<close> and its live layer
  (\<open>RecorderStateLive\<close>) are imported by \<open>commands.ts\<close> and are not among the source
  files. The recorder state persists across invocations: \<open>get\<close> reads the stored value,
  \<open>set\<close> replaces it, and either may fail with a typed error.\<close>

definition recorderStateService_get :: "Env \<Rightarrow> string Effect" where
  "recorderStateService_get env w =
     (case recorderState_get_fails env of
        Some e \<Rightarrow> (Failure e, w)
      | None \<Rightarrow> (Success (recorderState w), w))"

text \<open>Modelled from the spec: \<open>RecorderStateService.set\<close>, "commit state".\<close>

definition recorderStateService_set :: "Env \<Rightarrow> string \<Rightarrow> unit Effect" where
  "recorderStateService_set env v w =
     (case recorderState_set_fails env of
        Some e \<Rightarrow> (Failure e, w)
      | None \<Rightarrow> (Success (), w\<lparr>recorderState := v\<rparr>))"

text \<open>Modelled from the spec: \<open>ExtensionStorageService\<close> and its live layer are imported
  by \<open>commands.ts\<close> and are not among the source files. \<open>set\<close> stores the toast for the
  notification collaborator, or fails with a typed error.\<close>

definition extensionStorage_set_toast :: "Env \<Rightarrow> Toast \<Rightarrow> unit Effect" where
  "extensionStorage_set_toast env toast w =
     (case extensionStorage_set_fails env of
        Some e \<Rightarrow> (Failure e, w)
      | None \<Rightarrow> (Success (), w\<lparr>toastSlot := Some toast\<rparr>))"

section \<open>The peer locator\<close>

text \<open>The \<open>for\<close> loop of \<open>getOrCreateWhisperingTabId\<close>: the first pinned tab, if any.\<close>

fun firstPinnedTab :: "Tab list \<Rightarrow> Tab option" where
  "firstPinnedTab [] = None"
| "firstPinnedTab (tab # rest) = (if tab_pinned tab then Some tab else firstPinnedTab rest)"

definition whisperingQuery :: QueryInfo where
  "whisperingQuery =
     \<lparr>q_url = Some ''http://localhost:5173/*'', q_active = None, q_currentWindow = None\<rparr>"

definition getOrCreateWhisperingTabId :: "Env \<Rightarrow> nat Effect" where
  "getOrCreateWhisperingTabId env =
     Effect_mapError
       (Effect_flatMap
          (Effect_flatMap (Effect_promise (chrome_tabs_query env whisperingQuery))
             (\<lambda>found.
                if 0 < length found then
                  (case firstPinnedTab found of
                     Some tab \<Rightarrow> Effect_succeed (tab_id tab)
                   | None \<Rightarrow> Effect_succeed (tab_id (found ! 0)))
                else
                  Effect_flatMap
                    (Effect_promise
                       (chrome_tabs_create env
                          \<lparr>c_url = ''http://localhost:5173'', c_active = False, c_pinned = True\<rparr>))
                    (\<lambda>newTab. Effect_succeed (tab_id newTab))))
          Option_fromNullable)
       (\<lambda>_. InvokeCommandError ''Error getting or creating Whispering tab'' None)"

definition activeTabQuery :: QueryInfo where
  "activeTabQuery = \<lparr>q_url = None, q_active = Some True, q_currentWindow = Some True\<rparr>"

text \<open>\<open>getActiveTabId\<close> reads \<open>firstActiveTab.id\<close> without checking that there is a first
  tab: with no active tab the property access throws inside \<open>Effect.gen\<close>. An identifier
  of 0 is falsy.\<close>

definition getActiveTabId :: "Env \<Rightarrow> nat Effect" where
  "getActiveTabId env =
     Effect_flatMap
       (Effect_tryPromise (chrome_tabs_query env activeTabQuery)
          (\<lambda>reason. InvokeCommandError ''Error getting active tabs'' (Some reason)))
       (\<lambda>activeTabs.
          case activeTabs of
            [] \<Rightarrow> Effect_die ''TypeError: firstActiveTab is undefined''
          | firstActiveTab # _ \<Rightarrow>
              (case tab_id firstActiveTab of
                 None \<Rightarrow> Effect_fail (InvokeCommandError ''No active tab ID found'' None)
               | Some n \<Rightarrow>
                   if n = 0 then Effect_fail (InvokeCommandError ''No active tab ID found'' None)
                   else Effect_succeed n))"

section \<open>Commands of the background service worker\<close>

definition openOptionsPage_runInBackgroundServiceWorker :: "Env \<Rightarrow> unit Effect" where
  "openOptionsPage_runInBackgroundServiceWorker env =
     Effect_tryPromise (chrome_runtime_openOptionsPage env)
       (\<lambda>reason. InvokeCommandError ''Error opening options page'' (Some reason))"

definition getCurrentTabId_runInBackgroundServiceWorker :: "Env \<Rightarrow> nat option Effect" where
  "getCurrentTabId_runInBackgroundServiceWorker env =
     Effect_flatMap
       (Effect_tryPromise (chrome_tabs_query env activeTabQuery)
          (\<lambda>reason. InvokeCommandError ''Error getting active tabs'' (Some reason)))
       (\<lambda>activeTabs.
          case activeTabs of
            [] \<Rightarrow> Effect_fail (InvokeCommandError ''No active tab found'' None)
          | firstActiveTab # _ \<Rightarrow> Effect_succeed (tab_id firstActiveTab))"

section \<open>Message listeners\<close>

text \<open>Modelled from the spec: the message listeners of the three contexts are not among
  the source files. A listener runs the native handler of the command that the message
  names, with the message's arguments, and answers with the handler's result; a message
  is sent only to the native context of its command.\<close>

definition onMessage_BackgroundServiceWorker :: "Env \<Rightarrow> Message \<Rightarrow> response Effect" where
  "onMessage_BackgroundServiceWorker env message =
     (case message of
        Msg_openOptionsPage \<Rightarrow>
          Effect_flatMap (openOptionsPage_runInBackgroundServiceWorker env)
            (\<lambda>_. Effect_succeed R_undefined)
      | Msg_getCurrentTabId \<Rightarrow>
          Effect_flatMap (getCurrentTabId_runInBackgroundServiceWorker env)
            (\<lambda>n. Effect_succeed (case n of None \<Rightarrow> R_undefined | Some i \<Rightarrow> R_tabId i))
      | _ \<Rightarrow> Effect_die ''no native handler in this context'')"

text \<open>Modelled from the spec: the message listener of the application page, which runs
  the native handlers of \<open>getSettings\<close> and \<open>setSettings\<close>.\<close>

definition onMessage_WhisperingContentScript :: "Env \<Rightarrow> Message \<Rightarrow> response Effect" where
  "onMessage_WhisperingContentScript env message =
     (case message of
        Msg_getSettings \<Rightarrow>
          Effect_flatMap (getSettings_runInWhisperingContentScript env)
            (\<lambda>settings. Effect_succeed (R_settings settings))
      | Msg_setSettings settings \<Rightarrow>
          Effect_flatMap (setSettings_runInWhisperingContentScript env settings)
            (\<lambda>_. Effect_succeed R_undefined)
      | _ \<Rightarrow> Effect_die ''no native handler in this context'')"

section \<open>Sending a message to another context\<close>

definition sendMessageToWhisperingContentScript :: "Env \<Rightarrow> Message \<Rightarrow> response Effect" where
  "sendMessageToWhisperingContentScript env message =
     Effect_flatMap (getOrCreateWhisperingTabId env)
       (\<lambda>whisperingTabId.
          Effect_promise
            (chrome_tabs_sendMessage env (onMessage_WhisperingContentScript env)
               WhisperingContentScript whisperingTabId message))"

definition sendMessageToBackground :: "Env \<Rightarrow> Message \<Rightarrow> response Effect" where
  "sendMessageToBackground env message =
     Effect_promise
       (chrome_runtime_sendMessage env (onMessage_BackgroundServiceWorker env) message)"

section \<open>Shims of the global content script\<close>

definition openOptionsPage_invokeFromGlobalContentScript :: "Env \<Rightarrow> response Effect" where
  "openOptionsPage_invokeFromGlobalContentScript env =
     sendMessageToBackground env Msg_openOptionsPage"

text \<open>The type argument of \<open>sendMessageToWhisperingContentScript<Settings>\<close> is a cast of
  the answer; reading a field of an answer that is no settings document throws.\<close>

definition getSettings_invokeFromGlobalContentScript :: "Env \<Rightarrow> Settings Effect" where
  "getSettings_invokeFromGlobalContentScript env =
     Effect_flatMap (sendMessageToWhisperingContentScript env Msg_getSettings)
       (\<lambda>answer.
          case answer of
            R_settings settings \<Rightarrow> Effect_succeed settings
          | _ \<Rightarrow> Effect_die ''TypeError: the answer is not a settings document'')"

definition setSettings_invokeFromGlobalContentScript :: "Env \<Rightarrow> Settings \<Rightarrow> unit Effect" where
  "setSettings_invokeFromGlobalContentScript env settings =
     Effect_flatMap (sendMessageToWhisperingContentScript env (Msg_setSettings settings))
       (\<lambda>_. Effect_succeed ())"

section \<open>Commands of the global content script\<close>

definition checkAndUpdateSelectedAudioInputDevice :: "Env \<Rightarrow> unit Effect" where
  "checkAndUpdateSelectedAudioInputDevice env =
     Effect_catchAll
       (Effect_flatMap (getSettings_invokeFromGlobalContentScript env) (\<lambda>settings.
        Effect_flatMap (recorderService_enumerateRecordingDevices env) (\<lambda>devices.
          let isSelectedDeviceExists =
                list_ex (\<lambda>d. deviceId d = selectedAudioInputDeviceId settings) devices
          in
            if \<not> isSelectedDeviceExists then
              (case devices of
                 [] \<Rightarrow> Effect_die ''TypeError: recordingDevices[0] is undefined''
               | first # _ \<Rightarrow>
                   (let firstAudioInput = deviceId first in
                    Effect_flatMap (getSettings_invokeFromGlobalContentScript env) (\<lambda>oldSettings.
                    setSettings_invokeFromGlobalContentScript env
                      (oldSettings\<lparr>selectedAudioInputDeviceId := firstAudioInput\<rparr>))))
            else Effect_succeed ())))
       (\<lambda>error. Effect_succeed ())"

text \<open>The body of \<open>toggleRecording.runInGlobalContentScript\<close> after the line that binds
  \<open>settings\<close>. An empty string is the only falsy credential.\<close>

definition toggleRecording_steps :: "Env \<Rightarrow> ToggleSettings \<Rightarrow> unit Effect" where
  "toggleRecording_steps env settings =
     (if apiKey settings = [] then
        Effect_flatMap (Effect_sync (alert ''Please set your API key in the extension options'')) (\<lambda>_.
        Effect_flatMap (openOptionsPage_invokeFromGlobalContentScript env) (\<lambda>_.
        Effect_succeed ()))
      else
        Effect_flatMap (checkAndUpdateSelectedAudioInputDevice env) (\<lambda>_.
        Effect_flatMap (recorderStateService_get env) (\<lambda>state.
          if state = ''IDLE'' then
            Effect_flatMap
              (recorderService_startRecording env (selectedAudioInputDeviceId settings)) (\<lambda>_.
            Effect_flatMap
              (Effect_sync (if isPlaySoundEnabled settings then Audio_play startSound else id)) (\<lambda>_.
            Effect_flatMap (Effect_logInfo ''Recording started'') (\<lambda>_.
            recorderStateService_set env ''RECORDING'')))
          else if state = ''RECORDING'' then
            Effect_flatMap (recorderService_stopRecording env) (\<lambda>_.
            Effect_flatMap
              (Effect_sync (if isPlaySoundEnabled settings then Audio_play stopSound else id)) (\<lambda>_.
            Effect_flatMap (Effect_logInfo ''Recording stopped'') (\<lambda>_.
            recorderStateService_set env ''IDLE'')))
          else Effect_logError ''Invalid recorder state'')))"

text \<open>The settings that \<open>toggleRecording\<close> works with are the object literal that its
  body binds to \<open>settings\<close>.\<close>

definition toggleRecording_settings :: ToggleSettings where
  "toggleRecording_settings =
     \<lparr>apiKey = [], selectedAudioInputDeviceId = [], isPlaySoundEnabled = True\<rparr>"

definition toggleRecording_runInGlobalContentScript :: "Env \<Rightarrow> unit Effect" where
  "toggleRecording_runInGlobalContentScript env =
     toggleRecording_steps env toggleRecording_settings"

definition cancelRecording_runInGlobalContentScript :: "Env \<Rightarrow> unit Effect" where
  "cancelRecording_runInGlobalContentScript env =
     Effect_flatMap (getSettings_invokeFromGlobalContentScript env) (\<lambda>settings.
     Effect_flatMap (recorderStateService_get env) (\<lambda>state.
     Effect_flatMap (recorderService_cancelRecording env) (\<lambda>_.
     Effect_flatMap
       (Effect_sync
          (if state = ''RECORDING'' \<and> isPlaySoundEnabled settings then Audio_play cancelSound
           else id)) (\<lambda>_.
     Effect_flatMap (Effect_logInfo ''Recording cancelled'') (\<lambda>_.
     recorderStateService_set env ''IDLE'')))))"

definition sendErrorToast_runInGlobalContentScript :: "Env \<Rightarrow> Toast \<Rightarrow> unit Effect" where
  "sendErrorToast_runInGlobalContentScript env toast = extensionStorage_set_toast env toast"

text \<open>Modelled from the spec: the message listener of the global content script, which
  runs the native handlers of \<open>toggleRecording\<close>, \<open>cancelRecording\<close> and \<open>sendErrorToast\<close>.\<close>

definition onMessage_GlobalContentScript :: "Env \<Rightarrow> Message \<Rightarrow> response Effect" where
  "onMessage_GlobalContentScript env message =
     (case message of
        Msg_toggleRecording \<Rightarrow>
          Effect_flatMap (toggleRecording_runInGlobalContentScript env)
            (\<lambda>_. Effect_succeed R_undefined)
      | Msg_cancelRecording \<Rightarrow>
          Effect_flatMap (cancelRecording_runInGlobalContentScript env)
            (\<lambda>_. Effect_succeed R_undefined)
      | Msg_sendErrorToast toast \<Rightarrow>
          Effect_flatMap (sendErrorToast_runInGlobalContentScript env toast)
            (\<lambda>_. Effect_succeed R_undefined)
      | _ \<Rightarrow> Effect_die ''no native handler in this context'')"

definition sendMessageToGlobalContentScript :: "Env \<Rightarrow> Message \<Rightarrow> response Effect" where
  "sendMessageToGlobalContentScript env message =
     Effect_flatMap (getActiveTabId env)
       (\<lambda>activeTabId.
          Effect_promise
            (chrome_tabs_sendMessage env (onMessage_GlobalContentScript env)
               GlobalContentScript activeTabId message))"

section \<open>The command table\<close>

datatype CommandName =
    openOptionsPage
  | getCurrentTabId
  | getSettings
  | setSettings
  | toggleRecording
  | cancelRecording
  | sendErrorToast

fun commandName :: "Message \<Rightarrow> CommandName" where
  "commandName Msg_openOptionsPage = openOptionsPage"
| "commandName Msg_getCurrentTabId = getCurrentTabId"
| "commandName Msg_getSettings = getSettings"
| "commandName (Msg_setSettings settings) = setSettings"
| "commandName Msg_toggleRecording = toggleRecording"
| "commandName Msg_cancelRecording = cancelRecording"
| "commandName (Msg_sendErrorToast toast) = sendErrorToast"

text \<open>The native context of each command, from the type \<open>Commands\<close>.\<close>

fun nativeContext :: "CommandName \<Rightarrow> ExecutionContext" where
  "nativeContext openOptionsPage = BackgroundServiceWorker"
| "nativeContext getCurrentTabId = BackgroundServiceWorker"
| "nativeContext getSettings = WhisperingContentScript"
| "nativeContext setSettings = WhisperingContentScript"
| "nativeContext toggleRecording = GlobalContentScript"
| "nativeContext cancelRecording = GlobalContentScript"
| "nativeContext sendErrorToast = GlobalContentScript"

text \<open>The properties of a command object: \<open>runIn<Context>\<close> and \<open>invokeFrom<Context>\<close>.\<close>

datatype property = runIn ExecutionContext | invokeFrom ExecutionContext

definition answering :: "'a Effect \<Rightarrow> ('a \<Rightarrow> response) \<Rightarrow> response Effect" where
  "answering m f = Effect_flatMap m (\<lambda>a. Effect_succeed (f a))"

text \<open>The object \<open>commands\<close>: for a command, applied to the arguments that the message
  carries, the function stored under a property, or \<open>None\<close> where the object of that
  command has no such property.\<close>

fun commands :: "Env \<Rightarrow> Message \<Rightarrow> property \<Rightarrow> response Effect option" where
  "commands env Msg_openOptionsPage (runIn BackgroundServiceWorker) =
     Some (answering (openOptionsPage_runInBackgroundServiceWorker env) (\<lambda>_. R_undefined))"
| "commands env Msg_openOptionsPage (invokeFrom GlobalContentScript) =
     Some (openOptionsPage_invokeFromGlobalContentScript env)"
| "commands env Msg_getCurrentTabId (runIn BackgroundServiceWorker) =
     Some (answering (getCurrentTabId_runInBackgroundServiceWorker env)
             (\<lambda>n. case n of None \<Rightarrow> R_undefined | Some i \<Rightarrow> R_tabId i))"
| "commands env Msg_getSettings (runIn WhisperingContentScript) =
     Some (answering (getSettings_runInWhisperingContentScript env) R_settings)"
| "commands env Msg_getSettings (invokeFrom GlobalContentScript) =
     Some (answering (getSettings_invokeFromGlobalContentScript env) R_settings)"
| "commands env (Msg_setSettings settings) (runIn WhisperingContentScript) =
     Some (answering (setSettings_runInWhisperingContentScript env settings) (\<lambda>_. R_undefined))"
| "commands env (Msg_setSettings settings) (invokeFrom GlobalContentScript) =
     Some (answering (setSettings_invokeFromGlobalContentScript env settings) (\<lambda>_. R_undefined))"
| "commands env Msg_toggleRecording (runIn GlobalContentScript) =
     Some (answering (toggleRecording_runInGlobalContentScript env) (\<lambda>_. R_undefined))"
| "commands env Msg_toggleRecording (invokeFrom BackgroundServiceWorker) =
     Some (sendMessageToGlobalContentScript env Msg_toggleRecording)"
| "commands env Msg_toggleRecording (invokeFrom Popup) =
     Some (sendMessageToGlobalContentScript env Msg_toggleRecording)"
| "commands env Msg_cancelRecording (runIn GlobalContentScript) =
     Some (answering (cancelRecording_runInGlobalContentScript env) (\<lambda>_. R_undefined))"
| "commands env Msg_cancelRecording (invokeFrom BackgroundServiceWorker) =
     Some (sendMessageToGlobalContentScript env Msg_cancelRecording)"
| "commands env Msg_cancelRecording (invokeFrom Popup) =
     Some (sendMessageToGlobalContentScript env Msg_cancelRecording)"
| "commands env (Msg_sendErrorToast toast) (runIn GlobalContentScript) =
     Some (answering (sendErrorToast_runInGlobalContentScript env toast) (\<lambda>_. R_undefined))"
| "commands env _ _ = None"

section \<open>A concrete platform\<close>

text \<open>A JSON codec for flat documents (objects whose values are booleans and strings,
  written without white space), an environment in which no call fails, and a world in
  which nothing has happened yet. The examples below run the commands on them.\<close>

fun quoted_chars :: "string \<Rightarrow> string" where
  "quoted_chars [] = []"
| "quoted_chars (c # cs) =
     (if c = CHR 0x22 \<or> c = CHR 0x5C then CHR 0x5C # c # quoted_chars cs
      else c # quoted_chars cs)"

definition quoted :: "string \<Rightarrow> string" where
  "quoted s = CHR 0x22 # quoted_chars s @ [CHR 0x22]"

definition flat_value_text :: "jsval \<Rightarrow> string" where
  "flat_value_text v =
     (case v of
        JBool b \<Rightarrow> if b then ''true'' else ''false''
      | JStr s \<Rightarrow> quoted s
      | _ \<Rightarrow> ''null'')"

fun members_text :: "(string \<times> jsval) list \<Rightarrow> string" where
  "members_text [] = []"
| "members_text [(k, v)] = quoted k @ '':'' @ flat_value_text v"
| "members_text ((k, v) # rest) = quoted k @ '':'' @ flat_value_text v @ '','' @ members_text rest"

definition flat_stringify :: "jsval \<Rightarrow> string" where
  "flat_stringify v =
     (case v of
        JObj props \<Rightarrow> ''{'' @ members_text props @ ''}''
      | _ \<Rightarrow> flat_value_text v)"

fun read_string :: "string \<Rightarrow> string \<Rightarrow> (string \<times> string) option" where
  "read_string acc [] = None"
| "read_string acc (c # cs) =
     (if c = CHR 0x22 then Some (rev acc, cs)
      else if c = CHR 0x5C then
        (case cs of [] \<Rightarrow> None | d # ds \<Rightarrow> read_string (d # acc) ds)
      else read_string (c # acc) cs)"

definition read_value :: "string \<Rightarrow> (jsval \<times> string) option" where
  "read_value cs =
     (if take 4 cs = ''true'' then Some (JBool True, drop 4 cs)
      else if take 5 cs = ''false'' then Some (JBool False, drop 5 cs)
      else
        (case cs of
           [] \<Rightarrow> None
         | c # rest \<Rightarrow>
             if c = CHR 0x22 then map_option (\<lambda>(s, r). (JStr s, r)) (read_string [] rest)
             else None))"

fun read_members :: "nat \<Rightarrow> string \<Rightarrow> (string \<times> jsval) list option" where
  "read_members 0 cs = None"
| "read_members (Suc fuel) cs =
     (case cs of
        [] \<Rightarrow> None
      | c # rest \<Rightarrow>
          if c \<noteq> CHR 0x22 then None
          else
            (case read_string [] rest of
               None \<Rightarrow> None
             | Some (k, r1) \<Rightarrow>
                 (case r1 of
                    [] \<Rightarrow> None
                  | colon # r2 \<Rightarrow>
                      if colon \<noteq> CHR '':'' then None
                      else
                        (case read_value r2 of
                           None \<Rightarrow> None
                         | Some (v, r3) \<Rightarrow>
                             (case r3 of
                                [] \<Rightarrow> None
                              | sep # r4 \<Rightarrow>
                                  if sep = CHR '','' then
                                    map_option ((#) (k, v)) (read_members fuel r4)
                                  else if sep = CHR ''}'' \<and> r4 = [] then Some [(k, v)]
                                  else None)))))"

definition flat_parse :: "string \<Rightarrow> string + jsval" where
  "flat_parse text =
     (case text of
        [] \<Rightarrow> Inl ''SyntaxError''
      | c # rest \<Rightarrow>
          if c \<noteq> CHR ''{'' then Inl ''SyntaxError''
          else if rest = ''}'' then Inr (JObj [])
          else
            (case read_members (length rest) rest of
               None \<Rightarrow> Inl ''SyntaxError''
             | Some props \<Rightarrow> Inr (JObj props)))"

text \<open>The objects that the flat codec covers: every value is a boolean or a string.\<close>

definition flat_props :: "(string \<times> jsval) list \<Rightarrow> bool" where
  "flat_props props =
     list_all (\<lambda>(k, v). case v of JBool b \<Rightarrow> True | JStr s \<Rightarrow> True | _ \<Rightarrow> False) props"

definition quietEnv :: Env where
  "quietEnv =
     \<lparr>JSON_parse = flat_parse, JSON_stringify = flat_stringify,
      localStorage_denied = None, localStorage_quotaExceeded = None,
      tabs_query_rejects = None, tabs_create_rejects = None,
      tabs_sendMessage_rejects = None, runtime_sendMessage_rejects = None,
      runtime_openOptionsPage_rejects = None,
      recordingDevices = [\<lparr>deviceId = ''mic-1'', label = ''Built-in microphone''\<rparr>],
      enumerateRecordingDevices_fails = None, startRecording_fails = None,
      stopRecording_fails = None, cancelRecording_fails = None,
      recorderState_get_fails = None, recorderState_set_fails = None,
      extensionStorage_set_fails = None\<rparr>"

definition freshWorld :: World where
  "freshWorld =
     \<lparr>tabs = [], nextTabId = 1, localStorage = (\<lambda>key. None), recorderState = ''IDLE'',
      toastSlot = None, recorderCalls = [], played = [], alerts = [], logs = [],
      sentMessages = [], optionsPagesOpened = 0\<rparr>"

definition whisperingTab :: "nat \<Rightarrow> bool \<Rightarrow> Tab" where
  "whisperingTab n pinned =
     \<lparr>tab_id = Some n, tab_url = ''http://localhost:5173/'', tab_pinned = pinned,
      tab_active = False, tab_currentWindow = True\<rparr>"

definition sampleSettings :: Settings where
  "sampleSettings =
     \<lparr>apiKey = ''sk-1'', selectedAudioInputDeviceId = ''unplugged'', isPlaySoundEnabled = True,
      isCopyToClipboardEnabled = False, isPasteContentsOnSuccessEnabled = True,
      currentLocalShortcut = ''space'', currentGlobalShortcut = ''ctrl+r'',
      outputLanguage = ''fr''\<rparr>"

text \<open>A world whose application page is open and pinned and holds \<open>sampleSettings\<close>.\<close>

definition configuredWorld :: World where
  "configuredWorld =
     freshWorld
       \<lparr>tabs := [whisperingTab 7 True], nextTabId := 8,
        localStorage :=
          (\<lambda>key. if key = ''whispering-settings''
                  then Some (flat_stringify (jsval_of_Settings sampleSettings)) else None)\<rparr>"

section \<open>Notions used in the statements\<close>

text \<open>The application-page peers of a world: the tabs that the locator's query finds.\<close>

definition whisperingPeers :: "World \<Rightarrow> Tab list" where
  "whisperingPeers w = filter (tab_matches whisperingQuery) (tabs w)"

text \<open>The stored settings are missing or corrupt: there is no text under the key, or the
  text is no JSON, or the value it denotes does not pass the schema.\<close>

definition settingsMissingOrCorrupt :: "Env \<Rightarrow> World \<Rightarrow> bool" where
  "settingsMissingOrCorrupt env w =
     (case localStorage w ''whispering-settings'' of
        None \<Rightarrow> True
      | Some text \<Rightarrow>
          (case JSON_parse env text of
             Inl thrown \<Rightarrow> True
           | Inr v \<Rightarrow> (case settingsSchema v of Inl thrown \<Rightarrow> True | Inr s \<Rightarrow> False)))"

text \<open>Two worlds agree on the recorder: the stored state, the calls made to the recorder,
  the cues played, the alerts shown and the log.\<close>

definition sameRecorder :: "World \<Rightarrow> World \<Rightarrow> bool" where
  "sameRecorder w w' =
     (recorderState w' = recorderState w \<and> recorderCalls w' = recorderCalls w \<and>
      played w' = played w \<and> alerts w' = alerts w \<and> logs w' = logs w)"

text \<open>The document that a read of the settings yields, as a function of the stored texts.\<close>

definition readSettings :: "Env \<Rightarrow> (string \<Rightarrow> string option) \<Rightarrow> Settings" where
  "readSettings env store =
     (case localStorage_denied env of
        Some reason \<Rightarrow> defaultSettings
      | None \<Rightarrow>
          (case store ''whispering-settings'' of
             None \<Rightarrow> defaultSettings
           | Some text \<Rightarrow>
               (case JSON_parse env text of
                  Inl thrown \<Rightarrow> defaultSettings
                | Inr v \<Rightarrow>
                    (case settingsSchema v of Inl thrown \<Rightarrow> defaultSettings | Inr s \<Rightarrow> s))))"

section \<open>Basic facts\<close>

lemmas effect_defs = Effect_succeed_def Effect_fail_def Effect_die_def Effect_flatMap_def
  Effect_catchAll_def Effect_mapError_def Effect_promise_def Effect_tryPromise_def Effect_try_def
  Option_fromNullable_def Effect_sync_def Effect_logInfo_def Effect_logError_def

lemma settingsSchema_jsval_of_Settings: "settingsSchema (jsval_of_Settings X) = Inr X"
  by (simp add: settingsSchema_def jsval_of_Settings_def and_then_def z_boolean_def z_string_def)

lemma getLocalStorage_cases:
  "getLocalStorage env key schema d w =
     (Success (case localStorage_getItem env key w of
                 Inl thrown \<Rightarrow> d
               | Inr None \<Rightarrow> d
               | Inr (Some text) \<Rightarrow>
                   (case JSON_parse env text of
                      Inl thrown \<Rightarrow> d
                    | Inr v \<Rightarrow> (case schema v of Inl thrown \<Rightarrow> d | Inr a \<Rightarrow> a))), w)"
  by (simp add: getLocalStorage_def effect_defs and_then_def split: sum.splits option.splits)

lemma getSettings_native:
  "getSettings_runInWhisperingContentScript env w = (Success (readSettings env (localStorage w)), w)"
  by (simp add: getSettings_runInWhisperingContentScript_def getLocalStorage_cases readSettings_def
       localStorage_getItem_def split: option.splits)

lemma sameRecorder_refl: "sameRecorder a a"
  by (simp add: sameRecorder_def)

lemma sameRecorder_trans: "sameRecorder a b \<Longrightarrow> sameRecorder b c \<Longrightarrow> sameRecorder a c"
  by (simp add: sameRecorder_def)

lemma getOrCreate_frame:
  "getOrCreateWhisperingTabId env w = (r, w') \<Longrightarrow>
     sameRecorder w w' \<and> localStorage w' = localStorage w \<and> sentMessages w' = sentMessages w"
  by (auto simp: getOrCreateWhisperingTabId_def effect_defs chrome_tabs_query_def
        chrome_tabs_create_def sameRecorder_def Let_def
      split: option.splits if_splits sum.splits prod.splits Exit.splits)

lemma getSettings_shim:
  assumes "getSettings_invokeFromGlobalContentScript env w = (r, w')"
  shows "sameRecorder w w' \<and> localStorage w' = localStorage w \<and>
         (\<forall>s. r = Success s \<longrightarrow> s = readSettings env (localStorage w))"
proof -
  obtain r1 w1 where g: "getOrCreateWhisperingTabId env w = (r1, w1)"
    by (cases "getOrCreateWhisperingTabId env w")
  from getOrCreate_frame [OF g]
  have f1: "sameRecorder w w1" "localStorage w1 = localStorage w" by simp_all
  from assms g f1 show ?thesis
    by (auto simp: getSettings_invokeFromGlobalContentScript_def
          sendMessageToWhisperingContentScript_def chrome_tabs_sendMessage_def
          onMessage_WhisperingContentScript_def getSettings_native effect_defs
          sameRecorder_def Let_def
        split: option.splits if_splits Exit.splits response.splits)
qed

lemma setSettings_shim:
  assumes "setSettings_invokeFromGlobalContentScript env s w = (r, w')"
  shows "sameRecorder w w'"
proof -
  obtain r1 w1 where g: "getOrCreateWhisperingTabId env w = (r1, w1)"
    by (cases "getOrCreateWhisperingTabId env w")
  from getOrCreate_frame [OF g] have f1: "sameRecorder w w1" by simp
  from assms g f1 show ?thesis
    by (auto simp: setSettings_invokeFromGlobalContentScript_def
          sendMessageToWhisperingContentScript_def chrome_tabs_sendMessage_def
          onMessage_WhisperingContentScript_def setSettings_runInWhisperingContentScript_def
          setLocalStorage_def localStorage_setItem_def effect_defs
          sameRecorder_def Let_def
        split: option.splits if_splits Exit.splits response.splits)
qed

text \<open>The fallback sub-routine never touches the recorder and never fails with a typed
  error: it succeeds or dies.\<close>

lemma checkAndUpdate_frame:
  assumes "checkAndUpdateSelectedAudioInputDevice env w = (r, w')"
  shows "sameRecorder w w' \<and> \<not> isFailure r"
proof -
  obtain r1 w1 where g1: "getSettings_invokeFromGlobalContentScript env w = (r1, w1)"
    by (cases "getSettings_invokeFromGlobalContentScript env w")
  have f1: "sameRecorder w w1" using getSettings_shim [OF g1] by simp
  obtain r2 w2 where g2: "getSettings_invokeFromGlobalContentScript env w1 = (r2, w2)"
    by (cases "getSettings_invokeFromGlobalContentScript env w1")
  have f2: "sameRecorder w1 w2" using getSettings_shim [OF g2] by simp
  have f3: "\<And>s r3 w3. setSettings_invokeFromGlobalContentScript env s w2 = (r3, w3) \<Longrightarrow> sameRecorder w2 w3"
    by (rule setSettings_shim)
  show ?thesis
  proof (cases r1)
    case (Success settings)
    show ?thesis
    proof (cases "enumerateRecordingDevices_fails env")
      case (Some e)
      with assms g1 Success f1 show ?thesis
        by (auto simp add: checkAndUpdateSelectedAudioInputDevice_def effect_defs
             recorderService_enumerateRecordingDevices_def)
    next
      case None
      show ?thesis
      proof (cases "list_ex (\<lambda>d. deviceId d = selectedAudioInputDeviceId settings) (recordingDevices env)")
        case True
        with assms g1 Success f1 None show ?thesis
          by (auto simp add: checkAndUpdateSelectedAudioInputDevice_def effect_defs
               recorderService_enumerateRecordingDevices_def)
      next
        case False
        show ?thesis
        proof (cases "recordingDevices env")
          case Nil
          with assms g1 Success f1 None False show ?thesis
            by (auto simp add: checkAndUpdateSelectedAudioInputDevice_def effect_defs
                 recorderService_enumerateRecordingDevices_def)
        next
          case (Cons first rest)
          show ?thesis
          proof (cases r2)
            case (Success oldSettings)
            obtain r3 w3 where g3: "setSettings_invokeFromGlobalContentScript env
                (oldSettings\<lparr>selectedAudioInputDeviceId := deviceId first\<rparr>) w2 = (r3, w3)"
              by (cases "setSettings_invokeFromGlobalContentScript env
                (oldSettings\<lparr>selectedAudioInputDeviceId := deviceId first\<rparr>) w2")
            from f3 [OF g3] f1 f2 have "sameRecorder w w3"
              by (blast intro: sameRecorder_trans)
            with assms g1 \<open>r1 = Success settings\<close> None False Cons g2 Success g3 show ?thesis
              by (cases r3) (auto simp add: checkAndUpdateSelectedAudioInputDevice_def effect_defs
                             recorderService_enumerateRecordingDevices_def Let_def)
          next
            case (Failure e)
            from f1 f2 have "sameRecorder w w2" by (blast intro: sameRecorder_trans)
            with assms g1 \<open>r1 = Success settings\<close> None False Cons g2 Failure show ?thesis
              by (auto simp add: checkAndUpdateSelectedAudioInputDevice_def effect_defs
                             recorderService_enumerateRecordingDevices_def Let_def)
          next
            case (Die d)
            from f1 f2 have "sameRecorder w w2" by (blast intro: sameRecorder_trans)
            with assms g1 \<open>r1 = Success settings\<close> None False Cons g2 Die show ?thesis
              by (auto simp add: checkAndUpdateSelectedAudioInputDevice_def effect_defs
                             recorderService_enumerateRecordingDevices_def Let_def)
          qed
        qed
      qed
    qed
  next
    case (Failure e)
    with assms g1 f1 show ?thesis
      by (auto simp add: checkAndUpdateSelectedAudioInputDevice_def effect_defs)
  next
    case (Die d)
    with assms g1 f1 show ?thesis
      by (auto simp add: checkAndUpdateSelectedAudioInputDevice_def effect_defs)
  qed
qed

section \<open>Settings storage\<close>

text \<open>C10. The native \<open>getSettings\<close> handler is total over its error channel: whatever the
  storage holds (no text under the key, a text that is no JSON or does not pass the schema,
  or a read that throws), it succeeds and leaves the world as it was. The document it
  returns is the fixed default document or the stored document as validated by the schema;
  the failure built by \<open>catch\<close> never reaches the caller.\<close>

theorem getSettings_total:
  "\<exists>d. getSettings_runInWhisperingContentScript env w = (Success d, w) \<and>
        (d = defaultSettings \<or>
         (\<exists>text v. localStorage_getItem env ''whispering-settings'' w = Inr (Some text) \<and>
                   JSON_parse env text = Inr v \<and> settingsSchema v = Inr d))"
  unfolding getSettings_runInWhisperingContentScript_def getLocalStorage_cases
  by (auto split: sum.splits option.splits)

text \<open>The flat codec reads back what it wrote for every settings document.\<close>

lemma read_string_quoted_chars:
  "read_string acc (quoted_chars s @ CHR 0x22 # rest) = Some (rev acc @ s, rest)"
  by (induction s arbitrary: acc) auto

lemma read_value_text:
  assumes "v = JBool b \<or> v = JStr s"
  shows "read_value (flat_value_text v @ rest) = Some (v, rest)"
proof -
  have t: "read_value (''true'' @ rest) = Some (JBool True, rest)"
    by (simp add: read_value_def)
  have f: "read_value (''false'' @ rest) = Some (JBool False, rest)"
    by (simp add: read_value_def)
  have q: "\<And>s. read_value (quoted s @ rest) = Some (JStr s, rest)"
    by (simp add: read_value_def quoted_def read_string_quoted_chars)
  from assms show ?thesis
  proof
    assume "v = JBool b"
    with t f show ?thesis by (cases b) (simp_all add: flat_value_text_def)
  next
    assume "v = JStr s"
    with q show ?thesis by (simp add: flat_value_text_def)
  qed
qed

lemma read_members_text:
  assumes "flat_props props" and "props \<noteq> []" and "length props \<le> fuel"
  shows "read_members fuel (members_text props @ ''}'') = Some props"
  using assms
proof (induction props arbitrary: fuel rule: members_text.induct)
  case 1
  then show ?case by simp
next
  case (2 k v)
  then obtain n where "fuel = Suc n" by (cases fuel) auto
  moreover from 2 have "(\<exists>b. v = JBool b) \<or> (\<exists>s. v = JStr s)"
    by (auto simp: flat_props_def split: jsval.splits)
  ultimately show ?case
    by (auto simp: quoted_def read_string_quoted_chars read_value_text)
next
  case (3 k v p rest)
  then obtain n where f: "fuel = Suc n" by (cases fuel) auto
  from 3 have v: "(\<exists>b. v = JBool b) \<or> (\<exists>s. v = JStr s)"
    by (auto simp: flat_props_def split: jsval.splits)
  from 3 f have "read_members n (members_text (p # rest) @ ''}'') = Some (p # rest)"
    by (auto simp: flat_props_def)
  with f v show ?case
    by (auto simp: quoted_def read_string_quoted_chars read_value_text)
qed

lemma length_members_text: "length props \<le> length (members_text props)"
  by (induction props rule: members_text.induct) (auto simp: quoted_def)

lemma flat_codec_roundtrip:
  "flat_parse (flat_stringify (jsval_of_Settings X)) = Inr (jsval_of_Settings X)"
proof -
  let ?props = "[(''isPlaySoundEnabled'', JBool (isPlaySoundEnabled X)),
      (''isCopyToClipboardEnabled'', JBool (isCopyToClipboardEnabled X)),
      (''isPasteContentsOnSuccessEnabled'', JBool (isPasteContentsOnSuccessEnabled X)),
      (''selectedAudioInputDeviceId'', JStr (selectedAudioInputDeviceId X)),
      (''currentLocalShortcut'', JStr (currentLocalShortcut X)),
      (''currentGlobalShortcut'', JStr (currentGlobalShortcut X)),
      (''apiKey'', JStr (apiKey X)),
      (''outputLanguage'', JStr (outputLanguage X))]"
  have flat: "flat_props ?props" by (simp add: flat_props_def)
  have fuel: "length ?props \<le> length (members_text ?props @ ''}'')"
    using length_members_text [of ?props] by simp
  have "read_members (length (members_text ?props @ ''}'')) (members_text ?props @ ''}'') = Some ?props"
    by (rule read_members_text [OF flat _ fuel]) simp
  moreover have "members_text ?props @ ''}'' \<noteq> ''}''"
    by (simp add: quoted_def)
  ultimately show ?thesis
    by (simp add: flat_parse_def flat_stringify_def jsval_of_Settings_def)
qed

text \<open>C6. For every settings document \<open>X\<close>: when \<open>setSettings X\<close> succeeds, the
  \<open>getSettings\<close> that follows returns \<open>X\<close> unchanged, provided the engine's JSON codec reads
  back what it wrote for \<open>X\<close>. And \<open>getSettings\<close> on missing or corrupt storage returns the
  fixed default document.\<close>

theorem setSettings_getSettings_roundtrip:
  "(JSON_parse env (JSON_stringify env (jsval_of_Settings X)) = Inr (jsval_of_Settings X) \<longrightarrow>
    setSettings_runInWhisperingContentScript env X w = (Success (), w') \<longrightarrow>
    getSettings_runInWhisperingContentScript env w' = (Success X, w'))
   \<and>
   (settingsMissingOrCorrupt env w \<longrightarrow>
    getSettings_runInWhisperingContentScript env w = (Success defaultSettings, w))"
proof (intro conjI impI)
  assume codec: "JSON_parse env (JSON_stringify env (jsval_of_Settings X)) = Inr (jsval_of_Settings X)"
    and written: "setSettings_runInWhisperingContentScript env X w = (Success (), w')"
  from written have
    "localStorage_denied env = None \<and>
     localStorage w' ''whispering-settings'' = Some (JSON_stringify env (jsval_of_Settings X))"
    by (auto simp: setSettings_runInWhisperingContentScript_def setLocalStorage_def
          localStorage_setItem_def effect_defs split: option.splits)
  with codec show "getSettings_runInWhisperingContentScript env w' = (Success X, w')"
    by (simp add: getSettings_native readSettings_def settingsSchema_jsval_of_Settings)
next
  assume "settingsMissingOrCorrupt env w"
  then show "getSettings_runInWhisperingContentScript env w = (Success defaultSettings, w)"
    by (auto simp: getSettings_native readSettings_def settingsMissingOrCorrupt_def
        split: option.splits sum.splits)
qed

theorem setSettings_getSettings_roundtrip_witness:
  "(\<forall>X. \<exists>w'. setSettings_runInWhisperingContentScript quietEnv X freshWorld = (Success (), w') \<and>
         getSettings_runInWhisperingContentScript quietEnv w' = (Success X, w'))
   \<and> settingsMissingOrCorrupt quietEnv freshWorld
   \<and> getSettings_runInWhisperingContentScript quietEnv freshWorld = (Success defaultSettings, freshWorld)
   \<and> settingsMissingOrCorrupt quietEnv
        (freshWorld\<lparr>localStorage := (\<lambda>key. Some ''{broken'')\<rparr>)
   \<and> getSettings_runInWhisperingContentScript quietEnv (freshWorld\<lparr>localStorage := (\<lambda>key. Some ''{broken'')\<rparr>)
       = (Success defaultSettings, freshWorld\<lparr>localStorage := (\<lambda>key. Some ''{broken'')\<rparr>)"
proof -
  have missing: "settingsMissingOrCorrupt quietEnv freshWorld"
    by (simp add: settingsMissingOrCorrupt_def freshWorld_def)
  have corrupt: "settingsMissingOrCorrupt quietEnv (freshWorld\<lparr>localStorage := (\<lambda>key. Some ''{broken'')\<rparr>)"
    by (simp add: settingsMissingOrCorrupt_def quietEnv_def flat_parse_def)
  have a: "\<exists>w'. setSettings_runInWhisperingContentScript quietEnv X freshWorld = (Success (), w') \<and>
         getSettings_runInWhisperingContentScript quietEnv w' = (Success X, w')" for X
  proof -
    have parsed: "JSON_parse quietEnv (JSON_stringify quietEnv (jsval_of_Settings X))
        = Inr (jsval_of_Settings X)"
      by (simp add: quietEnv_def flat_codec_roundtrip)
    obtain w' where written:
      "setSettings_runInWhisperingContentScript quietEnv X freshWorld = (Success (), w')"
      by (simp add: setSettings_runInWhisperingContentScript_def setLocalStorage_def
            localStorage_setItem_def effect_defs quietEnv_def)
    from setSettings_getSettings_roundtrip [of quietEnv X freshWorld w'] parsed written
    have "getSettings_runInWhisperingContentScript quietEnv w' = (Success X, w')"
      by blast
    with written show ?thesis by blast
  qed
  from setSettings_getSettings_roundtrip [of quietEnv sampleSettings freshWorld freshWorld] missing
  have b: "getSettings_runInWhisperingContentScript quietEnv freshWorld = (Success defaultSettings, freshWorld)"
    by blast
  from setSettings_getSettings_roundtrip
         [of quietEnv sampleSettings "freshWorld\<lparr>localStorage := (\<lambda>key. Some ''{broken'')\<rparr>" freshWorld] corrupt
  have c: "getSettings_runInWhisperingContentScript quietEnv (freshWorld\<lparr>localStorage := (\<lambda>key. Some ''{broken'')\<rparr>)
       = (Success defaultSettings, freshWorld\<lparr>localStorage := (\<lambda>key. Some ''{broken'')\<rparr>)"
    by blast
  from a b c missing corrupt show ?thesis by blast
qed

section \<open>The peer locator\<close>

lemma firstPinnedTab_filter:
  "firstPinnedTab found = (case filter tab_pinned found of [] \<Rightarrow> None | tab # rest \<Rightarrow> Some tab)"
  by (induction found) auto

lemma created_tab_matches:
  "tab_matches whisperingQuery
     \<lparr>tab_id = n, tab_url = normalize_url ''http://localhost:5173'', tab_pinned = p,
      tab_active = a, tab_currentWindow = c\<rparr>"
  by (simp add: tab_matches_def whisperingQuery_def matches_url_pattern_def normalize_url_def)

lemma locator_prefers_pinned:
  assumes "tabs_query_rejects env = None"
    and "filter tab_pinned (whisperingPeers w) = [tab]" and "tab_id tab = Some n"
  shows "getOrCreateWhisperingTabId env w = (Success n, w)"
proof -
  from assms(2) have "whisperingPeers w \<noteq> []" by auto
  with assms show ?thesis
    by (simp add: getOrCreateWhisperingTabId_def effect_defs chrome_tabs_query_def
          whisperingPeers_def [symmetric] firstPinnedTab_filter)
qed

lemma locator_takes_first:
  assumes "tabs_query_rejects env = None"
    and "whisperingPeers w = first # rest" and "filter tab_pinned (whisperingPeers w) = []"
    and "tab_id first = Some n"
  shows "getOrCreateWhisperingTabId env w = (Success n, w)"
  using assms
  by (simp add: getOrCreateWhisperingTabId_def effect_defs chrome_tabs_query_def
        whisperingPeers_def [symmetric] firstPinnedTab_filter)

lemma locator_keeps_world:
  assumes "whisperingPeers w \<noteq> []"
  shows "snd (getOrCreateWhisperingTabId env w) = w"
  using assms
  by (simp add: getOrCreateWhisperingTabId_def effect_defs chrome_tabs_query_def
        whisperingPeers_def [symmetric] split: option.splits)

lemma locator_creates_one:
  assumes "tabs_query_rejects env = None" and "tabs_create_rejects env = None"
    and "whisperingPeers w = []"
  shows "\<exists>tab w'. getOrCreateWhisperingTabId env w = (Success (nextTabId w), w') \<and>
           tabs w' = tabs w @ [tab] \<and> whisperingPeers w' = [tab] \<and>
           tab_id tab = Some (nextTabId w) \<and> tab_pinned tab \<and> \<not> tab_active tab \<and>
           getOrCreateWhisperingTabId env w' = (Success (nextTabId w), w')"
proof -
  define tab where "tab = \<lparr>tab_id = Some (nextTabId w),
      tab_url = normalize_url ''http://localhost:5173'', tab_pinned = True,
      tab_active = False, tab_currentWindow = True\<rparr>"
  define w' where "w' = w\<lparr>tabs := tabs w @ [tab], nextTabId := Suc (nextTabId w)\<rparr>"
  have first: "getOrCreateWhisperingTabId env w = (Success (nextTabId w), w')"
    using assms
    by (simp add: getOrCreateWhisperingTabId_def effect_defs chrome_tabs_query_def
          chrome_tabs_create_def whisperingPeers_def [symmetric] tab_def w'_def Let_def)
  have peers: "whisperingPeers w' = [tab]"
    using assms(3) created_tab_matches [of "Some (nextTabId w)" True False True]
    by (simp add: whisperingPeers_def w'_def tab_def)
  have "filter tab_pinned (whisperingPeers w') = [tab]" "tab_id tab = Some (nextTabId w)"
    by (simp_all add: peers tab_def)
  from locator_prefers_pinned [OF assms(1) this]
  have again: "getOrCreateWhisperingTabId env w' = (Success (nextTabId w), w')" .
  have "tabs w' = tabs w @ [tab]" "tab_pinned tab" "\<not> tab_active tab"
    by (simp_all add: w'_def tab_def)
  with first peers again \<open>tab_id tab = Some (nextTabId w)\<close> show ?thesis by blast
qed

text \<open>C7. While the query for application pages goes through: (1) when exactly one of the
  peers is pinned and has an identifier, the locator returns that identifier; (2) when
  peers exist and none is pinned, it returns the identifier of the first one found;
  (3) once a peer exists a call changes nothing, so repeated calls give the same answer;
  (4) when no peer exists (and the creation goes through) one call opens exactly one new
  tab, pinned and not focused, returns its identifier, and a second call returns the same
  identifier without opening another.\<close>

theorem peer_locator:
  assumes "tabs_query_rejects env = None"
  shows "(\<forall>tab n. filter tab_pinned (whisperingPeers w) = [tab] \<and> tab_id tab = Some n \<longrightarrow>
            getOrCreateWhisperingTabId env w = (Success n, w))
       \<and> (\<forall>first rest n. whisperingPeers w = first # rest \<and>
              filter tab_pinned (whisperingPeers w) = [] \<and> tab_id first = Some n \<longrightarrow>
            getOrCreateWhisperingTabId env w = (Success n, w))
       \<and> (whisperingPeers w \<noteq> [] \<longrightarrow>
            snd (getOrCreateWhisperingTabId env w) = w \<and>
            getOrCreateWhisperingTabId env (snd (getOrCreateWhisperingTabId env w)) =
              getOrCreateWhisperingTabId env w)
       \<and> (whisperingPeers w = [] \<and> tabs_create_rejects env = None \<longrightarrow>
            (\<exists>tab w'. getOrCreateWhisperingTabId env w = (Success (nextTabId w), w') \<and>
               tabs w' = tabs w @ [tab] \<and> whisperingPeers w' = [tab] \<and>
               tab_id tab = Some (nextTabId w) \<and> tab_pinned tab \<and> \<not> tab_active tab \<and>
               getOrCreateWhisperingTabId env w' = (Success (nextTabId w), w')))"
proof (intro conjI allI impI)
  fix tab n
  assume "filter tab_pinned (whisperingPeers w) = [tab] \<and> tab_id tab = Some n"
  then show "getOrCreateWhisperingTabId env w = (Success n, w)"
    using locator_prefers_pinned [OF assms] by blast
next
  fix first rest n
  assume "whisperingPeers w = first # rest \<and>
    filter tab_pinned (whisperingPeers w) = [] \<and> tab_id first = Some n"
  then show "getOrCreateWhisperingTabId env w = (Success n, w)"
    using locator_takes_first [OF assms] by blast
next
  assume "whisperingPeers w \<noteq> []"
  then show "snd (getOrCreateWhisperingTabId env w) = w"
    by (rule locator_keeps_world)
next
  assume "whisperingPeers w \<noteq> []"
  then have "snd (getOrCreateWhisperingTabId env w) = w"
    by (rule locator_keeps_world)
  then show "getOrCreateWhisperingTabId env (snd (getOrCreateWhisperingTabId env w)) =
      getOrCreateWhisperingTabId env w"
    by simp
next
  assume "whisperingPeers w = [] \<and> tabs_create_rejects env = None"
  then show "\<exists>tab w'. getOrCreateWhisperingTabId env w = (Success (nextTabId w), w') \<and>
               tabs w' = tabs w @ [tab] \<and> whisperingPeers w' = [tab] \<and>
               tab_id tab = Some (nextTabId w) \<and> tab_pinned tab \<and> \<not> tab_active tab \<and>
               getOrCreateWhisperingTabId env w' = (Success (nextTabId w), w')"
    using locator_creates_one [OF assms] by blast
qed

theorem peer_locator_witness:
  "getOrCreateWhisperingTabId quietEnv
      (freshWorld\<lparr>tabs := [whisperingTab 3 False, whisperingTab 5 True], nextTabId := 6\<rparr>)
     = (Success 5, freshWorld\<lparr>tabs := [whisperingTab 3 False, whisperingTab 5 True], nextTabId := 6\<rparr>)
   \<and> getOrCreateWhisperingTabId quietEnv
      (freshWorld\<lparr>tabs := [whisperingTab 3 False, whisperingTab 4 False], nextTabId := 6\<rparr>)
     = (Success 3, freshWorld\<lparr>tabs := [whisperingTab 3 False, whisperingTab 4 False], nextTabId := 6\<rparr>)
   \<and> (\<exists>tab w'. getOrCreateWhisperingTabId quietEnv freshWorld = (Success 1, w') \<and>
         tabs w' = [tab] \<and> whisperingPeers w' = [tab] \<and> tab_id tab = Some 1 \<and>
         tab_pinned tab \<and> \<not> tab_active tab \<and>
         getOrCreateWhisperingTabId quietEnv w' = (Success 1, w'))"
proof -
  have q: "tabs_query_rejects quietEnv = None" and c: "tabs_create_rejects quietEnv = None"
    by (simp_all add: quietEnv_def)
  have m: "\<And>n p. tab_matches whisperingQuery (whisperingTab n p)"
    by (simp add: tab_matches_def whisperingQuery_def matches_url_pattern_def whisperingTab_def)
  let ?two = "freshWorld\<lparr>tabs := [whisperingTab 3 False, whisperingTab 5 True], nextTabId := 6\<rparr>"
  have "filter tab_pinned (whisperingPeers ?two) = [whisperingTab 5 True] \<and>
        tab_id (whisperingTab 5 True) = Some 5"
    by (simp add: whisperingPeers_def m) (simp add: whisperingTab_def)
  with peer_locator [OF q, of ?two]
  have a: "getOrCreateWhisperingTabId quietEnv ?two = (Success 5, ?two)" by blast
  let ?plain = "freshWorld\<lparr>tabs := [whisperingTab 3 False, whisperingTab 4 False], nextTabId := 6\<rparr>"
  have "whisperingPeers ?plain = whisperingTab 3 False # [whisperingTab 4 False] \<and>
        filter tab_pinned (whisperingPeers ?plain) = [] \<and>
        tab_id (whisperingTab 3 False) = Some 3"
    by (simp add: whisperingPeers_def m) (simp add: whisperingTab_def)
  with peer_locator [OF q, of ?plain]
  have b: "getOrCreateWhisperingTabId quietEnv ?plain = (Success 3, ?plain)" by blast
  have "whisperingPeers freshWorld = [] \<and> tabs_create_rejects quietEnv = None"
    by (simp add: whisperingPeers_def freshWorld_def c)
  with peer_locator [OF q, of freshWorld]
  have "\<exists>tab w'. getOrCreateWhisperingTabId quietEnv freshWorld = (Success (nextTabId freshWorld), w') \<and>
               tabs w' = tabs freshWorld @ [tab] \<and> whisperingPeers w' = [tab] \<and>
               tab_id tab = Some (nextTabId freshWorld) \<and> tab_pinned tab \<and> \<not> tab_active tab \<and>
               getOrCreateWhisperingTabId quietEnv w' = (Success (nextTabId freshWorld), w')"
    by blast
  then have d: "\<exists>tab w'. getOrCreateWhisperingTabId quietEnv freshWorld = (Success 1, w') \<and>
         tabs w' = [tab] \<and> whisperingPeers w' = [tab] \<and> tab_id tab = Some 1 \<and>
         tab_pinned tab \<and> \<not> tab_active tab \<and>
         getOrCreateWhisperingTabId quietEnv w' = (Success 1, w')"
    by (simp add: freshWorld_def)
  from a b d show ?thesis by blast
qed

section \<open>The recorder commands\<close>

lemma openOptionsPage_shim:
  assumes "openOptionsPage_invokeFromGlobalContentScript env w = (r, w')"
  shows "sameRecorder w w' \<and> localStorage w' = localStorage w \<and> \<not> isFailure r \<and>
         sentMessages w' = sentMessages w @ [(BackgroundServiceWorker, Msg_openOptionsPage)] \<and>
         (runtime_sendMessage_rejects env = None \<and> runtime_openOptionsPage_rejects env = None
            \<longrightarrow> r = Success R_undefined)"
  using assms
  by (auto simp: openOptionsPage_invokeFromGlobalContentScript_def sendMessageToBackground_def
        chrome_runtime_sendMessage_def onMessage_BackgroundServiceWorker_def
        openOptionsPage_runInBackgroundServiceWorker_def chrome_runtime_openOptionsPage_def
        effect_defs sameRecorder_def Let_def
      split: option.splits)

lemma openOptionsPage_shim_rejected:
  assumes "openOptionsPage_invokeFromGlobalContentScript env w = (r, w')"
    and "runtime_sendMessage_rejects env = Some reason"
  shows "r = Die reason"
  using assms
  by (auto simp: openOptionsPage_invokeFromGlobalContentScript_def sendMessageToBackground_def
        chrome_runtime_sendMessage_def effect_defs Let_def)

text \<open>C8. A successful \<open>cancelRecording\<close> ends with the stored state \<open>IDLE\<close>, whatever the
  state was before; the only cue it can play is the cancel cue, and it plays it exactly
  when the state before was \<open>RECORDING\<close> and the stored settings enable sound.\<close>

theorem cancelRecording_ends_idle:
  assumes "cancelRecording_runInGlobalContentScript env w = (Success (), w')"
  shows "recorderState w' = ''IDLE'' \<and>
         (\<exists>settings. getSettings_runInWhisperingContentScript env w = (Success settings, w) \<and>
            played w' = played w @
              (if recorderState w = ''RECORDING'' \<and> isPlaySoundEnabled settings
               then [cancelSound] else []))"
proof -
  obtain r1 w1 where g: "getSettings_invokeFromGlobalContentScript env w = (r1, w1)"
    by (cases "getSettings_invokeFromGlobalContentScript env w")
  from assms g obtain settings where s: "r1 = Success settings"
    by (cases r1) (auto simp: cancelRecording_runInGlobalContentScript_def effect_defs)
  from getSettings_shim [OF g] s
  have same: "sameRecorder w w1" and read: "settings = readSettings env (localStorage w)"
    by simp_all
  from assms g s same
  have "recorderState w' = ''IDLE'' \<and>
        played w' = played w @
          (if recorderState w = ''RECORDING'' \<and> isPlaySoundEnabled settings
           then [cancelSound] else [])"
    by (auto simp: cancelRecording_runInGlobalContentScript_def effect_defs
          recorderStateService_get_def recorderStateService_set_def
          recorderService_cancelRecording_def Audio_play_def sameRecorder_def Let_def
        split: option.splits if_splits)
  with read show ?thesis
    by (simp add: getSettings_native)
qed

theorem cancelRecording_ends_idle_witness:
  "fst (cancelRecording_runInGlobalContentScript quietEnv
          (configuredWorld\<lparr>recorderState := ''RECORDING''\<rparr>)) = Success ()
   \<and> recorderState (snd (cancelRecording_runInGlobalContentScript quietEnv
          (configuredWorld\<lparr>recorderState := ''RECORDING''\<rparr>))) = ''IDLE''
   \<and> played (snd (cancelRecording_runInGlobalContentScript quietEnv
          (configuredWorld\<lparr>recorderState := ''RECORDING''\<rparr>))) = [cancelSound]
   \<and> fst (cancelRecording_runInGlobalContentScript quietEnv freshWorld) = Success ()
   \<and> recorderState (snd (cancelRecording_runInGlobalContentScript quietEnv freshWorld)) = ''IDLE''
   \<and> played (snd (cancelRecording_runInGlobalContentScript quietEnv freshWorld)) = []"
proof -
  let ?w = "configuredWorld\<lparr>recorderState := ''RECORDING''\<rparr>"
  let ?run = "cancelRecording_runInGlobalContentScript quietEnv ?w"
  have ok: "fst ?run = Success ()"
    by code_simp
  then have run: "?run = (Success (), snd ?run)"
    by (simp add: prod_eq_iff)
  have stored: "getSettings_runInWhisperingContentScript quietEnv ?w = (Success sampleSettings, ?w)"
  proof -
    have "readSettings quietEnv (localStorage ?w) = sampleSettings" by code_simp
    then show ?thesis by (simp add: getSettings_native)
  qed
  have before: "recorderState ?w = ''RECORDING''" "played ?w = []" "isPlaySoundEnabled sampleSettings"
    by (simp_all add: configuredWorld_def freshWorld_def sampleSettings_def)
  from cancelRecording_ends_idle [OF run] stored before
  have a: "recorderState (snd ?run) = ''IDLE'' \<and> played (snd ?run) = [cancelSound]"
    by auto
  let ?run2 = "cancelRecording_runInGlobalContentScript quietEnv freshWorld"
  have ok2: "fst ?run2 = Success ()"
    by code_simp
  then have run2: "?run2 = (Success (), snd ?run2)"
    by (simp add: prod_eq_iff)
  have before2: "recorderState freshWorld = ''IDLE''" "played freshWorld = []"
    by (simp_all add: freshWorld_def)
  from cancelRecording_ends_idle [OF run2] before2
  have b: "recorderState (snd ?run2) = ''IDLE'' \<and> played (snd ?run2) = []"
    by auto
  from ok a ok2 b show ?thesis by simp
qed

text \<open>The body of the toggle, given any settings: when a run started from the stored state
  \<open>IDLE\<close> calls the recorder to start the capture and that call fails, the run ends with
  that typed failure, the stored state is still \<open>IDLE\<close> and no cue has been played.\<close>

lemma steps_start_failure:
  assumes idle: "recorderState w = ''IDLE''"
    and fails: "startRecording_fails env = Some e"
    and run: "toggleRecording_steps env settings w = (r, w')"
    and called: "recorderCalls w' =
       recorderCalls w @ [StartRecording (selectedAudioInputDeviceId settings)]"
  shows "r = Failure e \<and> recorderState w' = ''IDLE'' \<and> played w' = played w"
proof (cases "apiKey settings = []")
  case True
  obtain r1 w1 where o: "openOptionsPage_invokeFromGlobalContentScript env
      (alert ''Please set your API key in the extension options'' w) = (r1, w1)"
    by (cases "openOptionsPage_invokeFromGlobalContentScript env
      (alert ''Please set your API key in the extension options'' w)")
  from openOptionsPage_shim [OF o] run True o have "recorderCalls w' = recorderCalls w"
    by (cases r1) (auto simp: toggleRecording_steps_def effect_defs sameRecorder_def alert_def)
  with called show ?thesis by simp
next
  case False
  obtain r1 w1 where c: "checkAndUpdateSelectedAudioInputDevice env w = (r1, w1)"
    by (cases "checkAndUpdateSelectedAudioInputDevice env w")
  from checkAndUpdate_frame [OF c] have same: "sameRecorder w w1" by simp
  from run False c same idle fails called show ?thesis
    by (cases r1)
       (auto simp: toggleRecording_steps_def effect_defs recorderStateService_get_def
          recorderService_startRecording_def sameRecorder_def Let_def
        split: option.splits)
qed

lemma steps_start_failure_with_credential:
  "fst (toggleRecording_steps (quietEnv\<lparr>startRecording_fails := Some (RecorderError ''NotAllowedError'')\<rparr>)
          \<lparr>apiKey = ''sk-1'', selectedAudioInputDeviceId = ''mic-1'', isPlaySoundEnabled = True\<rparr>
          configuredWorld) = Failure (RecorderError ''NotAllowedError'')
   \<and> recorderState (snd (toggleRecording_steps
          (quietEnv\<lparr>startRecording_fails := Some (RecorderError ''NotAllowedError'')\<rparr>)
          \<lparr>apiKey = ''sk-1'', selectedAudioInputDeviceId = ''mic-1'', isPlaySoundEnabled = True\<rparr>
          configuredWorld)) = ''IDLE''
   \<and> played (snd (toggleRecording_steps
          (quietEnv\<lparr>startRecording_fails := Some (RecorderError ''NotAllowedError'')\<rparr>)
          \<lparr>apiKey = ''sk-1'', selectedAudioInputDeviceId = ''mic-1'', isPlaySoundEnabled = True\<rparr>
          configuredWorld)) = []"
proof -
  let ?env = "quietEnv\<lparr>startRecording_fails := Some (RecorderError ''NotAllowedError'')\<rparr>"
  let ?settings = "\<lparr>apiKey = ''sk-1'', selectedAudioInputDeviceId = ''mic-1'', isPlaySoundEnabled = True\<rparr>"
  let ?run = "toggleRecording_steps ?env ?settings configuredWorld"
  have idle: "recorderState configuredWorld = ''IDLE''" and quiet: "played configuredWorld = []"
    by (simp_all add: configuredWorld_def freshWorld_def)
  have fails: "startRecording_fails ?env = Some (RecorderError ''NotAllowedError'')"
    by simp
  have run: "?run = (fst ?run, snd ?run)"
    by simp
  have "recorderCalls (snd ?run) = [StartRecording ''mic-1'']"
    by code_simp
  then have called: "recorderCalls (snd ?run) =
      recorderCalls configuredWorld @ [StartRecording (selectedAudioInputDeviceId ?settings)]"
    by (simp add: configuredWorld_def freshWorld_def)
  from steps_start_failure [OF idle fails run called] quiet show ?thesis
    by simp
qed

text \<open>C2, as amended. With no credential the toggle raises no typed error: it shows the
  prompt, sends the open-configuration command to the background exactly once, leaves the
  stored state, the recorder and the cues alone, and succeeds when the message is
  delivered and the options page opens; a send that the platform rejects ends the run
  with that rejection as a defect.\<close>

theorem toggleRecording_no_credential:
  assumes "apiKey settings = []" and "toggleRecording_steps env settings w = (r, w')"
  shows "\<not> isFailure r \<and>
         (runtime_sendMessage_rejects env = None \<and> runtime_openOptionsPage_rejects env = None
            \<longrightarrow> r = Success ()) \<and>
         (\<forall>reason. runtime_sendMessage_rejects env = Some reason \<longrightarrow> r = Die reason) \<and>
         recorderState w' = recorderState w \<and> recorderCalls w' = recorderCalls w \<and>
         played w' = played w \<and> logs w' = logs w \<and> localStorage w' = localStorage w \<and>
         alerts w' = alerts w @ [''Please set your API key in the extension options''] \<and>
         sentMessages w' = sentMessages w @ [(BackgroundServiceWorker, Msg_openOptionsPage)]"
proof -
  obtain r1 w1 where o: "openOptionsPage_invokeFromGlobalContentScript env
      (alert ''Please set your API key in the extension options'' w) = (r1, w1)"
    by (cases "openOptionsPage_invokeFromGlobalContentScript env
      (alert ''Please set your API key in the extension options'' w)")
  have rejected: "r = Die reason" if "runtime_sendMessage_rejects env = Some reason" for reason
    using openOptionsPage_shim_rejected [OF o that] assms o
    by (simp add: toggleRecording_steps_def effect_defs)
  from openOptionsPage_shim [OF o] assms o
  have "\<not> isFailure r \<and>
         (runtime_sendMessage_rejects env = None \<and> runtime_openOptionsPage_rejects env = None
            \<longrightarrow> r = Success ()) \<and>
         recorderState w' = recorderState w \<and> recorderCalls w' = recorderCalls w \<and>
         played w' = played w \<and> logs w' = logs w \<and> localStorage w' = localStorage w \<and>
         alerts w' = alerts w @ [''Please set your API key in the extension options''] \<and>
         sentMessages w' = sentMessages w @ [(BackgroundServiceWorker, Msg_openOptionsPage)]"
    by (cases r1) (auto simp: toggleRecording_steps_def effect_defs sameRecorder_def alert_def)
  with rejected show ?thesis by blast
qed

theorem toggleRecording_no_credential_witness:
  "fst (toggleRecording_steps quietEnv toggleRecording_settings freshWorld) = Success ()
   \<and> recorderState (snd (toggleRecording_steps quietEnv toggleRecording_settings freshWorld)) = ''IDLE''
   \<and> recorderCalls (snd (toggleRecording_steps quietEnv toggleRecording_settings freshWorld)) = []
   \<and> alerts (snd (toggleRecording_steps quietEnv toggleRecording_settings freshWorld))
        = [''Please set your API key in the extension options'']
   \<and> sentMessages (snd (toggleRecording_steps quietEnv toggleRecording_settings freshWorld))
        = [(BackgroundServiceWorker, Msg_openOptionsPage)]"
proof -
  let ?run = "toggleRecording_steps quietEnv toggleRecording_settings freshWorld"
  have key: "apiKey toggleRecording_settings = []"
    by (simp add: toggleRecording_settings_def)
  have run: "?run = (fst ?run, snd ?run)"
    by simp
  have env: "runtime_sendMessage_rejects quietEnv = None \<and>
             runtime_openOptionsPage_rejects quietEnv = None"
    by (simp add: quietEnv_def)
  from toggleRecording_no_credential [OF key run] env show ?thesis
    by (simp add: freshWorld_def)
qed

section \<open>The toggle as shipped\<close>

text \<open>The literal bound to \<open>settings\<close> has an empty credential, so every run of
  \<open>toggleRecording\<close> ends at the credential guard: it never reads the stored state, never
  calls the recorder, never plays a cue, never logs and never writes the settings.\<close>

lemma toggleRecording_ends_at_guard:
  assumes "toggleRecording_runInGlobalContentScript env w = (r, w')"
  shows "\<not> isFailure r \<and>
         (runtime_sendMessage_rejects env = None \<and> runtime_openOptionsPage_rejects env = None
            \<longrightarrow> r = Success ()) \<and>
         recorderState w' = recorderState w \<and> recorderCalls w' = recorderCalls w \<and>
         played w' = played w \<and> logs w' = logs w \<and> localStorage w' = localStorage w"
proof -
  obtain r1 w1 where o: "openOptionsPage_invokeFromGlobalContentScript env
      (alert ''Please set your API key in the extension options'' w) = (r1, w1)"
    by (cases "openOptionsPage_invokeFromGlobalContentScript env
      (alert ''Please set your API key in the extension options'' w)")
  from openOptionsPage_shim [OF o] assms o show ?thesis
    by (cases r1)
       (auto simp: toggleRecording_runInGlobalContentScript_def toggleRecording_settings_def
          toggleRecording_steps_def effect_defs sameRecorder_def alert_def)
qed

lemma quietEnv_delivers:
  "runtime_sendMessage_rejects quietEnv = None \<and> runtime_openOptionsPage_rejects quietEnv = None"
  by (simp add: quietEnv_def)

text \<open>C2, as stated, fails: with no credential anywhere the toggle ends in success, not in
  a typed error.\<close>

theorem toggleRecording_without_credential_succeeds:
  "fst (toggleRecording_runInGlobalContentScript quietEnv freshWorld) = Success ()
   \<and> \<not> isFailure (fst (toggleRecording_runInGlobalContentScript quietEnv freshWorld))"
proof -
  let ?run = "toggleRecording_runInGlobalContentScript quietEnv freshWorld"
  have "?run = (fst ?run, snd ?run)" by simp
  from toggleRecording_ends_at_guard [OF this] quietEnv_delivers show ?thesis by simp
qed

text \<open>What the body does once it is given a credential: from \<open>IDLE\<close> it starts the capture,
  plays the start cue and stores \<open>RECORDING\<close>; from \<open>RECORDING\<close> it stops, plays the stop
  cue and stores \<open>IDLE\<close>; on any other stored value it logs an error and changes nothing;
  before that, the fallback sub-routine replaces a selected device that is gone by the first
  device present.\<close>

lemma steps_switch:
  assumes key: "apiKey settings \<noteq> []"
    and fallback: "checkAndUpdateSelectedAudioInputDevice env w = (Success (), w1)"
    and services: "recorderState_get_fails env = None" "recorderState_set_fails env = None"
      "startRecording_fails env = None" "stopRecording_fails env = None"
    and run: "toggleRecording_steps env settings w = (r, w')"
  shows "r = Success () \<and>
         (recorderState w = ''IDLE'' \<longrightarrow>
            recorderState w' = ''RECORDING'' \<and>
            recorderCalls w' = recorderCalls w @ [StartRecording (selectedAudioInputDeviceId settings)] \<and>
            played w' = played w @ (if isPlaySoundEnabled settings then [startSound] else [])) \<and>
         (recorderState w = ''RECORDING'' \<longrightarrow>
            recorderState w' = ''IDLE'' \<and>
            recorderCalls w' = recorderCalls w @ [StopRecording] \<and>
            played w' = played w @ (if isPlaySoundEnabled settings then [stopSound] else [])) \<and>
         (recorderState w \<noteq> ''IDLE'' \<and> recorderState w \<noteq> ''RECORDING'' \<longrightarrow>
            recorderState w' = recorderState w \<and> recorderCalls w' = recorderCalls w \<and>
            played w' = played w \<and>
            logs w' = logs w @ [(LogError, ''Invalid recorder state'')])"
proof -
  from checkAndUpdate_frame [OF fallback] have same: "sameRecorder w w1" by simp
  from run key fallback services same show ?thesis
    by (auto simp: toggleRecording_steps_def effect_defs recorderStateService_get_def
          recorderStateService_set_def recorderService_startRecording_def
          recorderService_stopRecording_def Audio_play_def sameRecorder_def Let_def
        split: if_splits)
qed

lemma steps_with_credential_from_idle:
  "fst (toggleRecording_steps quietEnv
          \<lparr>apiKey = ''sk-1'', selectedAudioInputDeviceId = ''mic-1'', isPlaySoundEnabled = True\<rparr>
          configuredWorld) = Success ()
   \<and> recorderState (snd (toggleRecording_steps quietEnv
          \<lparr>apiKey = ''sk-1'', selectedAudioInputDeviceId = ''mic-1'', isPlaySoundEnabled = True\<rparr>
          configuredWorld)) = ''RECORDING''
   \<and> played (snd (toggleRecording_steps quietEnv
          \<lparr>apiKey = ''sk-1'', selectedAudioInputDeviceId = ''mic-1'', isPlaySoundEnabled = True\<rparr>
          configuredWorld)) = [startSound]"
  by code_simp

lemma steps_with_credential_from_recording:
  "fst (toggleRecording_steps quietEnv
          \<lparr>apiKey = ''sk-1'', selectedAudioInputDeviceId = ''mic-1'', isPlaySoundEnabled = True\<rparr>
          (configuredWorld\<lparr>recorderState := ''RECORDING''\<rparr>)) = Success ()
   \<and> recorderState (snd (toggleRecording_steps quietEnv
          \<lparr>apiKey = ''sk-1'', selectedAudioInputDeviceId = ''mic-1'', isPlaySoundEnabled = True\<rparr>
          (configuredWorld\<lparr>recorderState := ''RECORDING''\<rparr>))) = ''IDLE''
   \<and> played (snd (toggleRecording_steps quietEnv
          \<lparr>apiKey = ''sk-1'', selectedAudioInputDeviceId = ''mic-1'', isPlaySoundEnabled = True\<rparr>
          (configuredWorld\<lparr>recorderState := ''RECORDING''\<rparr>))) = [stopSound]"
  by code_simp

lemma steps_with_credential_from_invalid_state:
  "fst (toggleRecording_steps quietEnv
          \<lparr>apiKey = ''sk-1'', selectedAudioInputDeviceId = ''mic-1'', isPlaySoundEnabled = True\<rparr>
          (configuredWorld\<lparr>recorderState := ''LOADING''\<rparr>)) = Success ()
   \<and> recorderState (snd (toggleRecording_steps quietEnv
          \<lparr>apiKey = ''sk-1'', selectedAudioInputDeviceId = ''mic-1'', isPlaySoundEnabled = True\<rparr>
          (configuredWorld\<lparr>recorderState := ''LOADING''\<rparr>))) = ''LOADING''
   \<and> logs (snd (toggleRecording_steps quietEnv
          \<lparr>apiKey = ''sk-1'', selectedAudioInputDeviceId = ''mic-1'', isPlaySoundEnabled = True\<rparr>
          (configuredWorld\<lparr>recorderState := ''LOADING''\<rparr>))) = [(LogError, ''Invalid recorder state'')]
   \<and> recorderCalls (snd (toggleRecording_steps quietEnv
          \<lparr>apiKey = ''sk-1'', selectedAudioInputDeviceId = ''mic-1'', isPlaySoundEnabled = True\<rparr>
          (configuredWorld\<lparr>recorderState := ''LOADING''\<rparr>))) = []"
  by code_simp

lemma fallback_substitutes_first_device:
  "fst (checkAndUpdateSelectedAudioInputDevice quietEnv configuredWorld) = Success ()
   \<and> readSettings quietEnv
        (localStorage (snd (checkAndUpdateSelectedAudioInputDevice quietEnv configuredWorld)))
      = sampleSettings\<lparr>selectedAudioInputDeviceId := ''mic-1''\<rparr>"
  by code_simp

text \<open>The sub-routine's \<open>catchAll\<close> sees typed failures only: with no input device at all,
  reading \<open>recordingDevices[0].deviceId\<close> throws, and that defect leaves the sub-routine.\<close>

lemma fallback_dies_without_devices:
  "fst (checkAndUpdateSelectedAudioInputDevice (quietEnv\<lparr>recordingDevices := []\<rparr>) configuredWorld)
     = Die ''TypeError: recordingDevices[0] is undefined''"
  by code_simp

text \<open>C1. Failing input: the application page holds a credential and the stored state is
  \<open>IDLE\<close>. The toggle succeeds, the stored state is still \<open>IDLE\<close> and the recorder was not
  called; a second toggle leaves it at \<open>IDLE\<close> again.\<close>

theorem toggleRecording_from_idle_stays_idle:
  "recorderState configuredWorld = ''IDLE''
   \<and> fst (toggleRecording_runInGlobalContentScript quietEnv configuredWorld) = Success ()
   \<and> recorderState (snd (toggleRecording_runInGlobalContentScript quietEnv configuredWorld)) = ''IDLE''
   \<and> recorderCalls (snd (toggleRecording_runInGlobalContentScript quietEnv configuredWorld)) = []
   \<and> recorderState (snd (toggleRecording_runInGlobalContentScript quietEnv
        (snd (toggleRecording_runInGlobalContentScript quietEnv configuredWorld)))) = ''IDLE''"
proof -
  let ?run = "toggleRecording_runInGlobalContentScript quietEnv configuredWorld"
  let ?again = "toggleRecording_runInGlobalContentScript quietEnv (snd ?run)"
  have start: "recorderState configuredWorld = ''IDLE''" "recorderCalls configuredWorld = []"
    by (simp_all add: configuredWorld_def freshWorld_def)
  have "?run = (fst ?run, snd ?run)" by simp
  from toggleRecording_ends_at_guard [OF this] quietEnv_delivers start
  have first: "fst ?run = Success () \<and> recorderState (snd ?run) = ''IDLE'' \<and>
               recorderCalls (snd ?run) = []"
    by simp
  have "?again = (fst ?again, snd ?again)" by simp
  from toggleRecording_ends_at_guard [OF this] first
  have "recorderState (snd ?again) = ''IDLE''" by simp
  with start first show ?thesis by simp
qed


text \<open>C4. Failing input: the stored settings select the device \<open>unplugged\<close>, the only
  device present is \<open>mic-1\<close>. After one toggle the stored settings still select
  \<open>unplugged\<close>: the fallback sub-routine was not run.\<close>

theorem toggleRecording_keeps_missing_device:
  "getSettings_runInWhisperingContentScript quietEnv configuredWorld
     = (Success sampleSettings, configuredWorld)
   \<and> selectedAudioInputDeviceId sampleSettings = ''unplugged''
   \<and> map deviceId (recordingDevices quietEnv) = [''mic-1'']
   \<and> fst (getSettings_runInWhisperingContentScript quietEnv
        (snd (toggleRecording_runInGlobalContentScript quietEnv configuredWorld)))
     = Success sampleSettings"
proof -
  let ?run = "toggleRecording_runInGlobalContentScript quietEnv configuredWorld"
  have stored: "readSettings quietEnv (localStorage configuredWorld) = sampleSettings"
    by code_simp
  have "?run = (fst ?run, snd ?run)" by simp
  from toggleRecording_ends_at_guard [OF this]
  have "localStorage (snd ?run) = localStorage configuredWorld" by simp
  with stored show ?thesis
    by (simp add: getSettings_native) (simp add: sampleSettings_def quietEnv_def)
qed

text \<open>C9. Failing input: the stored state is \<open>LOADING\<close>. The toggle succeeds and leaves the
  state alone, but nothing is logged: the stored state was not read.\<close>

theorem toggleRecording_invalid_state_not_logged:
  "fst (toggleRecording_runInGlobalContentScript quietEnv
          (configuredWorld\<lparr>recorderState := ''LOADING''\<rparr>)) = Success ()
   \<and> recorderState (snd (toggleRecording_runInGlobalContentScript quietEnv
          (configuredWorld\<lparr>recorderState := ''LOADING''\<rparr>))) = ''LOADING''
   \<and> logs (snd (toggleRecording_runInGlobalContentScript quietEnv
          (configuredWorld\<lparr>recorderState := ''LOADING''\<rparr>))) = []"
proof -
  let ?w = "configuredWorld\<lparr>recorderState := ''LOADING''\<rparr>"
  let ?run = "toggleRecording_runInGlobalContentScript quietEnv ?w"
  have start: "recorderState ?w = ''LOADING''" "logs ?w = []"
    by (simp_all add: configuredWorld_def freshWorld_def)
  have "?run = (fst ?run, snd ?run)" by simp
  from toggleRecording_ends_at_guard [OF this] quietEnv_delivers start show ?thesis by simp
qed

section \<open>The shims of the command table\<close>

text \<open>Where the command objects have an \<open>invokeFrom\<close> property: the three commands of the
  background and of the application page that the global content script calls, and the
  two recorder commands, which the background and the popup call. Every command has its
  \<open>runIn\<close> property in its native context and nowhere else.\<close>

lemma commands_invokeFrom:
  "commands env message (invokeFrom callerContext) \<noteq> None \<longleftrightarrow>
     (commandName message = openOptionsPage \<or> commandName message = getSettings \<or>
      commandName message = setSettings) \<and> callerContext = GlobalContentScript
     \<or> (commandName message = toggleRecording \<or> commandName message = cancelRecording) \<and>
       (callerContext = BackgroundServiceWorker \<or> callerContext = Popup)"
  by (cases message; cases callerContext) simp_all

lemma commands_runIn:
  "commands env message (runIn callerContext) \<noteq> None \<longleftrightarrow>
     callerContext = nativeContext (commandName message)"
  by (cases message; cases callerContext) simp_all

end
